theory Spec2Isabelle
  imports Complex_Main
begin

unbundle bit_operations_syntax

section \<open>The update coordinator of the i-DE integration\<close>

text \<open>
  A shallow embedding of \<^verbatim>\<open>custom_components/ideenergy/datacoordinator.py\<close>.
  An \<^verbatim>\<open>async\<close> method is modelled as the function from the state it reads to the state it
  leaves, the list of calls it made to its collaborators (barriers, API client, logger)
  and either the value it returns or the exception it raises.  Within one tick the
  coroutine awaits each fetch before it goes on, so the calls form a sequence.
\<close>

subsection \<open>Data sets\<close>

text \<open>
  \<^verbatim>\<open>class DataSetType(enum.IntFlag)\<close>: the six named members.  \<^verbatim>\<open>ALL\<close> is written
  \<open>ALL'\<close> because \<open>ALL\<close> is the ASCII spelling of the universal quantifier.  A value of the
  flag type that is not a named member (such as \<^verbatim>\<open>MEASURE | HISTORICAL_CONSUMPTION\<close>) is
  held as its integer.
\<close>

datatype DataSetType =
    NONE
  | MEASURE
  | HISTORICAL_CONSUMPTION
  | HISTORICAL_GENERATION
  | HISTORICAL_POWER_DEMAND
  | ALL'

fun DataSetType_value :: "DataSetType \<Rightarrow> int" where
  "DataSetType_value NONE = 0"
| "DataSetType_value MEASURE = push_bit 0 1"
| "DataSetType_value HISTORICAL_CONSUMPTION = push_bit 1 1"
| "DataSetType_value HISTORICAL_GENERATION = push_bit 2 1"
| "DataSetType_value HISTORICAL_POWER_DEMAND = push_bit 3 1"
| "DataSetType_value ALL' = 15"

text \<open>
  \<^verbatim>\<open>for x in DataSetType\<close>.  Up to Python 3.10 the iteration yields every member that is
  not an alias, in the order of declaration; from Python 3.11 it yields only the members
  with a single bit.  Both are given: the two filters of the update make them agree.
\<close>

definition DataSetType_iter :: "DataSetType list" where
  "DataSetType_iter =
     [NONE, MEASURE, HISTORICAL_CONSUMPTION, HISTORICAL_GENERATION,
      HISTORICAL_POWER_DEMAND, ALL']"

definition DataSetType_iter_canonical :: "DataSetType list" where
  "DataSetType_iter_canonical =
     [MEASURE, HISTORICAL_CONSUMPTION, HISTORICAL_GENERATION, HISTORICAL_POWER_DEMAND]"

subsection \<open>Exceptions\<close>

text \<open>
  The exceptions the module names, and two classes for the rest: \<open>OtherException\<close> is any
  other instance of \<^verbatim>\<open>Exception\<close>, \<open>OtherBaseException\<close> an instance of
  \<^verbatim>\<open>BaseException\<close> that is not an \<^verbatim>\<open>Exception\<close> (\<^verbatim>\<open>asyncio.CancelledError\<close>,
  \<^verbatim>\<open>KeyboardInterrupt\<close>, \<^verbatim>\<open>SystemExit\<close>), which \<^verbatim>\<open>except Exception\<close> lets through.
\<close>

datatype exn =
    KeyError
  | BarrierDeniedError string
  | ValueError string
  | UnicodeDecodeError
  | RequestFailedError string int
  | CommandError
  | NotImplementedError
  | OtherException string
  | OtherBaseException string

fun is_Exception :: "exn \<Rightarrow> bool" where
  "is_Exception (OtherBaseException _) = False"
| "is_Exception _ = True"

subsection \<open>Timestamps\<close>

text \<open>
  \<^verbatim>\<open>datetime.tzinfo\<close>: a fixed offset (\<^verbatim>\<open>datetime.timezone\<close>, compared by its offset, here
  in seconds) or a named zone.  \<^verbatim>\<open>timezone.utc\<close> is the fixed offset 0.
\<close>

datatype tzinfo = FixedOffset int | ZoneInfo string

definition timezone_utc :: tzinfo where
  "timezone_utc = FixedOffset 0"

record datetime =
  year :: nat
  month :: nat
  day :: nat
  hour :: nat
  minute :: nat
  second :: nat
  microsecond :: nat
  tzinfo :: "tzinfo option"

text \<open>\<^verbatim>\<open>dt.replace(tzinfo=tz)\<close>: the same wall-clock fields, the zone replaced.\<close>

definition replace_tzinfo :: "datetime \<Rightarrow> tzinfo \<Rightarrow> datetime" where
  "replace_tzinfo d tz = d\<lparr>tzinfo := Some tz\<rparr>"

text \<open>
  The two ends of the historical window are naive local timestamps on which only
  \<^verbatim>\<open>end - HISTORICAL_PERIOD_LENGHT\<close> is computed: they are held as a count of
  microseconds, and a \<^verbatim>\<open>timedelta\<close> likewise.
\<close>

type_synonym naive_datetime = int
type_synonym timedelta = int

subsection \<open>The records of the API client\<close>

record Measure =
  accumulate :: int
  instant :: real

record PeriodValue =
  start :: datetime
  end' :: datetime
  period_value :: real

record DemandAtInstant =
  dt :: datetime
  demand_value :: real

record HistoricalConsumption =
  periods :: "PeriodValue list"
  accumulated :: real
  accumulated_co2 :: real

record HistoricalGeneration =
  generation_periods :: "PeriodValue list"
  generation_accumulated :: real
  generation_accumulated_co2 :: real

record HistoricalPowerDemand =
  demands :: "DemandAtInstant list"

text \<open>
  \<^verbatim>\<open>self.api\<close>: what each request answers during the tick, a record or the exception it
  raises.
\<close>

record api_client =
  get_measure :: "exn + Measure"
  get_historical_consumption ::
    "naive_datetime \<Rightarrow> naive_datetime \<Rightarrow> exn + HistoricalConsumption"
  get_historical_generation ::
    "naive_datetime \<Rightarrow> naive_datetime \<Rightarrow> exn + HistoricalGeneration"
  get_historical_power_demand :: "exn + HistoricalPowerDemand"

subsection \<open>Coordinator data\<close>

text \<open>
  Modelled from the spec: the constants \<^verbatim>\<open>DATA_ATTR_*\<close> of \<^verbatim>\<open>const.py\<close>, which is not
  part of the sources at hand, are the names of a fixed set of five slots; they are taken
  to be five different keys.
\<close>

datatype data_attr =
    DATA_ATTR_MEASURE_ACCUMULATED
  | DATA_ATTR_MEASURE_INSTANT
  | DATA_ATTR_HISTORICAL_CONSUMPTION
  | DATA_ATTR_HISTORICAL_GENERATION
  | DATA_ATTR_HISTORICAL_POWER_DEMAND

datatype pyvalue =
    PyNone
  | PyInt int
  | PyFloat real
  | PyHistoricalConsumption HistoricalConsumption
  | PyHistoricalGeneration HistoricalGeneration
  | PyHistoricalPowerDemand HistoricalPowerDemand

type_synonym dict = "data_attr \<rightharpoonup> pyvalue"

text \<open>A sensor, as far as the coordinator reads it: \<^verbatim>\<open>sensor.I_DE_DATA_SETS\<close>.\<close>

record IDeEntity =
  entity_name :: string
  I_DE_DATA_SETS :: "DataSetType list"

text \<open>
  \<^verbatim>\<open>class IDeCoordinator\<close>.  The barriers are of a type \<open>'b\<close> left open
  (\<^verbatim>\<open>barrier.py\<close> is not part of the sources at hand); what \<^verbatim>\<open>check()\<close> and
  \<^verbatim>\<open>success()\<close> do is given by the environment below.  Each key of \<^verbatim>\<open>barriers\<close> holds a
  barrier of its own.
\<close>

record 'b IDeCoordinator =
  data :: dict
  api :: api_client
  barriers :: "DataSetType \<rightharpoonup> 'b"
  sensors :: "IDeEntity list"

text \<open>
  What the coordinator takes from outside during one tick: the two methods of the
  barriers (\<open>check b = None\<close> when \<^verbatim>\<open>b.check()\<close> returns, \<open>Some e\<close> when it raises \<open>e\<close>),
  the clocks, and the two constants of \<^verbatim>\<open>const.py\<close> the module uses.
\<close>

record 'b env =
  check :: "'b \<Rightarrow> exn option"
  success :: "'b \<Rightarrow> 'b"
  utcnow :: datetime
  today :: naive_datetime
  HISTORICAL_PERIOD_LENGHT :: timedelta
  LOCAL_TZ :: tzinfo

text \<open>\<^verbatim>\<open>dt_util.utcnow()\<close> of the host: the current time, aware, in UTC.\<close>

definition dt_util_utcnow :: "'b env \<Rightarrow> datetime" where
  "dt_util_utcnow env = replace_tzinfo (utcnow env) timezone_utc"

text \<open>\<^verbatim>\<open>IDeCoordinator.__init__\<close>: every slot is present and holds \<^verbatim>\<open>None\<close>.\<close>

definition init_data :: dict where
  "init_data =
     [DATA_ATTR_MEASURE_ACCUMULATED \<mapsto> PyNone,
      DATA_ATTR_MEASURE_INSTANT \<mapsto> PyNone,
      DATA_ATTR_HISTORICAL_CONSUMPTION \<mapsto> PyNone,
      DATA_ATTR_HISTORICAL_GENERATION \<mapsto> PyNone,
      DATA_ATTR_HISTORICAL_POWER_DEMAND \<mapsto> PyNone]"

definition init :: "api_client \<Rightarrow> (DataSetType \<rightharpoonup> 'b) \<Rightarrow> 'b IDeCoordinator" where
  "init a bs = \<lparr>data = init_data, api = a, barriers = bs, sensors = []\<rparr>"

subsection \<open>What a tick does to its collaborators\<close>

datatype api_request =
    GetMeasure
  | GetHistoricalConsumption naive_datetime naive_datetime
  | GetHistoricalGeneration naive_datetime naive_datetime
  | GetHistoricalPowerDemand

text \<open>The messages of \<^verbatim>\<open>_LOGGER.debug\<close>, one constructor for each call in the module.\<close>

datatype log_msg =
    RequestUpdate int
  | UpdateIgnoredNoBarrier DataSetType
  | UpdateDenied DataSetType string
  | UpdateAllowed DataSetType
  | UpdateIgnoredNotImplemented DataSetType
  | UpdateErrorInvalidEncoding DataSetType
  | UpdateErrorRequestFailed DataSetType string int
  | UpdateErrorCommand DataSetType
  | UpdateErrorFixme DataSetType exn
  | UpdateSuccessful DataSetType

datatype event =
    BarrierCheck DataSetType
  | BarrierSuccess DataSetType
  | Fetch DataSetType
  | ApiCall api_request
  | Log log_msg

subsection \<open>Normalisation of the timestamps\<close>

text \<open>
  \<^verbatim>\<open>
  def normalize_period_item(item):
      item.start = item.start.replace(tzinfo=LOCAL_TZ)
      item.end = item.end.replace(tzinfo=LOCAL_TZ)
      return item

  def normalize_dated_item(item):
      item.dt = item.dt.replace(tzinfo=LOCAL_TZ)
      return item
  \<close>
\<close>

definition normalize_period_item :: "tzinfo \<Rightarrow> PeriodValue \<Rightarrow> PeriodValue" where
  "normalize_period_item local_tz item =
     item\<lparr>start := replace_tzinfo (start item) local_tz,
          end' := replace_tzinfo (end' item) local_tz\<rparr>"

definition normalize_dated_item :: "tzinfo \<Rightarrow> DemandAtInstant \<Rightarrow> DemandAtInstant" where
  "normalize_dated_item local_tz item = item\<lparr>dt := replace_tzinfo (dt item) local_tz\<rparr>"

subsection \<open>The fetch routines\<close>

text \<open>
  Each routine gives the requests it made and the fragment it returns or the exception
  it raises.  An exception of the request leaves the routine at the \<^verbatim>\<open>await\<close>.
  \<^verbatim>\<open>
  async def get_direct_reading_data(self):
      data = await self.api.get_measure()
      return {DATA_ATTR_MEASURE_ACCUMULATED: data.accumulate,
              DATA_ATTR_MEASURE_INSTANT: data.instant}
  \<close>
\<close>

definition get_direct_reading_data ::
  "'b env \<Rightarrow> api_client \<Rightarrow> event list \<times> (exn + dict)" where
  "get_direct_reading_data env a =
     ([ApiCall GetMeasure],
      case get_measure a of
        Inl e \<Rightarrow> Inl e
      | Inr m \<Rightarrow>
          Inr [DATA_ATTR_MEASURE_ACCUMULATED \<mapsto> PyInt (accumulate m),
               DATA_ATTR_MEASURE_INSTANT \<mapsto> PyFloat (instant m)])"

text \<open>
  \<^verbatim>\<open>
  async def get_historical_consumption_data(self):
      end = datetime.today()
      start = end - HISTORICAL_PERIOD_LENGHT
      data = await self.api.get_historical_consumption(start=start, end=end)
      data.periods = [normalize_period_item(x) for x in data.periods]
      return {DATA_ATTR_HISTORICAL_CONSUMPTION: data}
  \<close>
\<close>

definition get_historical_consumption_data ::
  "'b env \<Rightarrow> api_client \<Rightarrow> event list \<times> (exn + dict)" where
  "get_historical_consumption_data env a =
     (let end_dt = today env;
          start_dt = end_dt - HISTORICAL_PERIOD_LENGHT env
      in ([ApiCall (GetHistoricalConsumption start_dt end_dt)],
          case get_historical_consumption a start_dt end_dt of
            Inl e \<Rightarrow> Inl e
          | Inr d \<Rightarrow>
              Inr [DATA_ATTR_HISTORICAL_CONSUMPTION \<mapsto>
                     PyHistoricalConsumption
                       (d\<lparr>periods := map (normalize_period_item (LOCAL_TZ env)) (periods d)\<rparr>)]))"

text \<open>
  \<^verbatim>\<open>
  async def get_historical_generation_data(self):
      end = datetime.today()
      start = end - HISTORICAL_PERIOD_LENGHT
      data = await self.api.get_historical_generation(start=start, end=end)
      raise NotImplementedError()
      return {DATA_ATTR_HISTORICAL_GENERATION: data}
  \<close>
  The \<^verbatim>\<open>return\<close> is dead code.
\<close>

definition get_historical_generation_data ::
  "'b env \<Rightarrow> api_client \<Rightarrow> event list \<times> (exn + dict)" where
  "get_historical_generation_data env a =
     (let end_dt = today env;
          start_dt = end_dt - HISTORICAL_PERIOD_LENGHT env
      in ([ApiCall (GetHistoricalGeneration start_dt end_dt)],
          case get_historical_generation a start_dt end_dt of
            Inl e \<Rightarrow> Inl e
          | Inr d \<Rightarrow> Inl NotImplementedError))"

text \<open>
  \<^verbatim>\<open>
  async def get_historical_power_demand_data(self):
      data = await self.api.get_historical_power_demand()
      data.demands = [normalize_dated_item(x) for x in data.demands]
      return {DATA_ATTR_HISTORICAL_POWER_DEMAND: data}
  \<close>
\<close>

definition get_historical_power_demand_data ::
  "'b env \<Rightarrow> api_client \<Rightarrow> event list \<times> (exn + dict)" where
  "get_historical_power_demand_data env a =
     ([ApiCall GetHistoricalPowerDemand],
      case get_historical_power_demand a of
        Inl e \<Rightarrow> Inl e
      | Inr d \<Rightarrow>
          Inr [DATA_ATTR_HISTORICAL_POWER_DEMAND \<mapsto>
                 PyHistoricalPowerDemand
                   (d\<lparr>demands := map (normalize_dated_item (LOCAL_TZ env)) (demands d)\<rparr>)])"

subsection \<open>The consumer registry\<close>

text \<open>
  \<^verbatim>\<open>
  def register_sensor(self, sensor):
      self.sensors.append(sensor)

  def unregister_sensor(self, sensor):
      self.sensors.remove(sensor)
  \<close>
  \<^verbatim>\<open>list.remove\<close> takes out the first occurrence and raises \<^verbatim>\<open>ValueError\<close> when there is
  none.
\<close>

definition register_sensor :: "'b IDeCoordinator \<Rightarrow> IDeEntity \<Rightarrow> 'b IDeCoordinator" where
  "register_sensor self sensor = self\<lparr>sensors := sensors self @ [sensor]\<rparr>"

definition unregister_sensor ::
  "'b IDeCoordinator \<Rightarrow> IDeEntity \<Rightarrow> exn + 'b IDeCoordinator" where
  "unregister_sensor self sensor =
     (if sensor \<in> set (sensors self)
      then Inr (self\<lparr>sensors := remove1 sensor (sensors self)\<rparr>)
      else Inl (ValueError ''list.remove(x): x not in list''))"

text \<open>
  \<^verbatim>\<open>
  def update_internal_data(self, data):
      self.data = self.data | data
  \<close>
\<close>

definition update_internal_data :: "'b IDeCoordinator \<Rightarrow> dict \<Rightarrow> 'b IDeCoordinator" where
  "update_internal_data self d = self\<lparr>data := data self ++ d\<rparr>"

subsection \<open>The raw update\<close>

text \<open>
  The state of the loop of \<^verbatim>\<open>_async_update_data_raw\<close>: the coordinator, the local
  dictionary \<^verbatim>\<open>data\<close> and the calls made so far.
\<close>

record 'b loop_state =
  self :: "'b IDeCoordinator"
  local_data :: dict
  events :: "event list"

definition emit :: "event list \<Rightarrow> 'b loop_state \<Rightarrow> 'b loop_state" where
  "emit evs s = s\<lparr>events := events s @ evs\<rparr>"

text \<open>
  The handlers of the first \<^verbatim>\<open>try\<close> (around \<^verbatim>\<open>self.barriers[dataset].check()\<close>): the
  message logged when the exception is caught, \<open>None\<close> when no clause matches and it
  propagates.
  \<^verbatim>\<open>
  except KeyError:                    ... no barrier defined;  continue
  except BarrierDeniedError as deny:  ... update denied;       continue
  \<close>
\<close>

fun barrier_handler :: "DataSetType \<Rightarrow> exn \<Rightarrow> log_msg option" where
  "barrier_handler dataset KeyError = Some (UpdateIgnoredNoBarrier dataset)"
| "barrier_handler dataset (BarrierDeniedError reason) = Some (UpdateDenied dataset reason)"
| "barrier_handler dataset _ = None"

text \<open>
  The handlers of the second \<^verbatim>\<open>try\<close> (around the fetch), in the order of the source:
  \<^verbatim>\<open>
  except UnicodeDecodeError:               ... continue
  except ideenergy.RequestFailedError as e: ... continue
  except ideenergy.CommandError as e:       ... continue
  except Exception as e:                    ... continue
  \<close>
  A \<^verbatim>\<open>RequestFailedError\<close> carries the reason and the status of its response, which the
  message quotes.
\<close>

fun fetch_handler :: "DataSetType \<Rightarrow> exn \<Rightarrow> log_msg option" where
  "fetch_handler dataset UnicodeDecodeError = Some (UpdateErrorInvalidEncoding dataset)"
| "fetch_handler dataset (RequestFailedError reason status) =
     Some (UpdateErrorRequestFailed dataset reason status)"
| "fetch_handler dataset CommandError = Some (UpdateErrorCommand dataset)"
| "fetch_handler dataset e =
     (if is_Exception e then Some (UpdateErrorFixme dataset e) else None)"

text \<open>
  The \<^verbatim>\<open>if\<close>/\<^verbatim>\<open>elif\<close> chain inside the second \<^verbatim>\<open>try\<close>: the routine of the data set, and
  \<open>None\<close> for the \<^verbatim>\<open>else\<close> branch (\<^verbatim>\<open>not implemented yet\<close>, \<^verbatim>\<open>continue\<close>).
\<close>

fun dispatch ::
  "'b env \<Rightarrow> api_client \<Rightarrow> DataSetType \<Rightarrow> (event list \<times> (exn + dict)) option" where
  "dispatch env a MEASURE = Some (get_direct_reading_data env a)"
| "dispatch env a HISTORICAL_CONSUMPTION = Some (get_historical_consumption_data env a)"
| "dispatch env a HISTORICAL_GENERATION = Some (get_historical_generation_data env a)"
| "dispatch env a HISTORICAL_POWER_DEMAND = Some (get_historical_power_demand_data env a)"
| "dispatch env a _ = None"

text \<open>
  The body of \<^verbatim>\<open>for dataset in requested\<close>.  The second component is \<open>None\<close> when the
  loop goes on (the end of the body or a \<^verbatim>\<open>continue\<close>), \<open>Some e\<close> when \<open>e\<close> leaves the loop.
  \<^verbatim>\<open>
  try:
      self.barriers[dataset].check()
  except KeyError: ...
  except BarrierDeniedError as deny: ...
  _LOGGER.debug(f"update allowed for {dataset.name}")
  try:
      if dataset is DataSetType.MEASURE:
          data.update(await self.get_direct_reading_data())
      elif ...
  except ...
  self.barriers[dataset].success()
  _LOGGER.debug(f"update successful for {dataset.name}")
  \<close>
\<close>

definition process_dataset ::
  "'b env \<Rightarrow> DataSetType \<Rightarrow> 'b loop_state \<Rightarrow> 'b loop_state \<times> exn option" where
  "process_dataset env dataset s =
     (case barriers (self s) dataset of
        None \<Rightarrow> (emit [Log (UpdateIgnoredNoBarrier dataset)] s, None)
      | Some b \<Rightarrow>
          (case check env b of
             Some e \<Rightarrow>
               (case barrier_handler dataset e of
                  Some msg \<Rightarrow> (emit [BarrierCheck dataset, Log msg] s, None)
                | None \<Rightarrow> (emit [BarrierCheck dataset] s, Some e))
           | None \<Rightarrow>
               (let s1 = emit [BarrierCheck dataset, Log (UpdateAllowed dataset)] s
                in case dispatch env (api (self s1)) dataset of
                     None \<Rightarrow> (emit [Log (UpdateIgnoredNotImplemented dataset)] s1, None)
                   | Some (evs, Inl e) \<Rightarrow>
                       (case fetch_handler dataset e of
                          Some msg \<Rightarrow> (emit (Fetch dataset # evs @ [Log msg]) s1, None)
                        | None \<Rightarrow> (emit (Fetch dataset # evs) s1, Some e))
                   | Some (evs, Inr fragment) \<Rightarrow>
                       (emit (Fetch dataset # evs @
                                [BarrierSuccess dataset, Log (UpdateSuccessful dataset)])
                          (s1\<lparr>local_data := local_data s1 ++ fragment,
                              self := (self s1)
                                \<lparr>barriers := (barriers (self s1))(dataset \<mapsto> success env b)\<rparr>\<rparr>),
                        None))))"

fun update_loop ::
  "'b env \<Rightarrow> DataSetType list \<Rightarrow> 'b loop_state \<Rightarrow> 'b loop_state \<times> exn option" where
  "update_loop env [] s = (s, None)"
| "update_loop env (dataset # rest) s =
     (case process_dataset env dataset s of
        (s', None) \<Rightarrow> update_loop env rest s'
      | (s', Some e) \<Rightarrow> (s', Some e))"

text \<open>
  \<^verbatim>\<open>
  requested = (x for x in DataSetType)
  requested = (x for x in requested if x is not DataSetType.ALL)
  requested = (x for x in requested if x & datasets)
  requested = list(requested)
  \<close>
\<close>

definition requested_from :: "DataSetType list \<Rightarrow> int \<Rightarrow> DataSetType list" where
  "requested_from members datasets =
     filter (\<lambda>x. DataSetType_value x AND datasets \<noteq> 0)
       (filter (\<lambda>x. x \<noteq> ALL') members)"

definition requested :: "int \<Rightarrow> DataSetType list" where
  "requested datasets = requested_from DataSetType_iter datasets"

text \<open>
  \<^verbatim>\<open>
  async def _async_update_data_raw(self, datasets=DataSetType.ALL, now=None):
      now = now or dt_util.utcnow()
      if now.tzinfo != timezone.utc:
          raise ValueError("now is missing tzinfo field")
      ...
      data = {}
      for dataset in requested: ...
      return data
  \<close>
  A \<^verbatim>\<open>datetime\<close> is never false, so a timestamp that is given is the one used.  The
  result is the coordinator as the call leaves it, the calls made, and the dictionary
  returned or the exception raised.
\<close>

definition async_update_data_raw ::
  "'b env \<Rightarrow> 'b IDeCoordinator \<Rightarrow> int \<Rightarrow> datetime option \<Rightarrow>
     'b IDeCoordinator \<times> event list \<times> (exn + dict)" where
  "async_update_data_raw env slf datasets now =
     (let now' = (case now of Some t \<Rightarrow> t | None \<Rightarrow> dt_util_utcnow env)
      in if tzinfo now' \<noteq> Some timezone_utc
         then (slf, [], Inl (ValueError ''now is missing tzinfo field''))
         else (case update_loop env (requested datasets)
                      \<lparr>self = slf, local_data = Map.empty, events = []\<rparr> of
                 (s, None) \<Rightarrow> (self s, events s, Inr (local_data s))
               | (s, Some e) \<Rightarrow> (self s, events s, Inl e)))"

subsection \<open>The update driven by the registered sensors\<close>

text \<open>
  \<^verbatim>\<open>
  ds = DataSetType.NONE
  for sensor in self.sensors:
      for s_ds in sensor.I_DE_DATA_SETS:
          ds = ds | s_ds
  \<close>
\<close>

definition required_datasets :: "IDeEntity list \<Rightarrow> int" where
  "required_datasets sensor_list =
     fold (\<lambda>sensor ds. fold (\<lambda>s_ds ds. ds OR DataSetType_value s_ds) (I_DE_DATA_SETS sensor) ds)
       sensor_list (DataSetType_value NONE)"

text \<open>
  \<^verbatim>\<open>
  async def _async_update_data(self):
      ...
      _LOGGER.debug(f"Request update for datasets: {dsstr}")
      updated_data = await self._async_update_data_raw(datasets=ds)
      data = self.data | updated_data
      return data
  \<close>
  The method returns the merged dictionary; the host's base class stores it.  The name
  of the bitmask in \<^verbatim>\<open>dsstr\<close> is only logged; from Python 3.11 on, \<^verbatim>\<open>ds.name\<close> is a string
  for every union of named members.
\<close>

definition async_update_data ::
  "'b env \<Rightarrow> 'b IDeCoordinator \<Rightarrow> 'b IDeCoordinator \<times> event list \<times> (exn + dict)" where
  "async_update_data env slf =
     (let ds = required_datasets (sensors slf)
      in case async_update_data_raw env slf ds None of
           (slf', evs, Inl e) \<Rightarrow> (slf', Log (RequestUpdate ds) # evs, Inl e)
         | (slf', evs, Inr updated_data) \<Rightarrow>
             (slf', Log (RequestUpdate ds) # evs, Inr (data slf' ++ updated_data)))"

section \<open>Notions used to state the properties\<close>

text \<open>
  The data set a request or a log message belongs to, read off the routine or the
  \<^verbatim>\<open>_LOGGER.debug\<close> call that issues it.
\<close>

fun request_dataset :: "api_request \<Rightarrow> DataSetType" where
  "request_dataset GetMeasure = MEASURE"
| "request_dataset (GetHistoricalConsumption s e) = HISTORICAL_CONSUMPTION"
| "request_dataset (GetHistoricalGeneration s e) = HISTORICAL_GENERATION"
| "request_dataset GetHistoricalPowerDemand = HISTORICAL_POWER_DEMAND"

fun log_dataset :: "log_msg \<Rightarrow> DataSetType option" where
  "log_dataset (RequestUpdate ds) = None"
| "log_dataset (UpdateIgnoredNoBarrier d) = Some d"
| "log_dataset (UpdateDenied d reason) = Some d"
| "log_dataset (UpdateAllowed d) = Some d"
| "log_dataset (UpdateIgnoredNotImplemented d) = Some d"
| "log_dataset (UpdateErrorInvalidEncoding d) = Some d"
| "log_dataset (UpdateErrorRequestFailed d reason status) = Some d"
| "log_dataset (UpdateErrorCommand d) = Some d"
| "log_dataset (UpdateErrorFixme d e) = Some d"
| "log_dataset (UpdateSuccessful d) = Some d"

fun event_dataset :: "event \<Rightarrow> DataSetType option" where
  "event_dataset (BarrierCheck d) = Some d"
| "event_dataset (BarrierSuccess d) = Some d"
| "event_dataset (Fetch d) = Some d"
| "event_dataset (ApiCall req) = Some (request_dataset req)"
| "event_dataset (Log msg) = log_dataset msg"

text \<open>The keys of the fragment the routine of a data set returns.\<close>

fun fragment_keys :: "DataSetType \<Rightarrow> data_attr set" where
  "fragment_keys MEASURE = {DATA_ATTR_MEASURE_ACCUMULATED, DATA_ATTR_MEASURE_INSTANT}"
| "fragment_keys HISTORICAL_CONSUMPTION = {DATA_ATTR_HISTORICAL_CONSUMPTION}"
| "fragment_keys HISTORICAL_GENERATION = {DATA_ATTR_HISTORICAL_GENERATION}"
| "fragment_keys HISTORICAL_POWER_DEMAND = {DATA_ATTR_HISTORICAL_POWER_DEMAND}"
| "fragment_keys _ = {}"

text \<open>
  \<open>check_returns\<close>: the data set has a barrier and its \<^verbatim>\<open>check()\<close> returns without raising.
  \<open>fetch_returns\<close>: the fetch routine of the data set returns a fragment.
  \<open>fetch_raises\<close>: it raises the given exception.
\<close>

definition check_returns :: "'b env \<Rightarrow> 'b IDeCoordinator \<Rightarrow> DataSetType \<Rightarrow> bool" where
  "check_returns env slf d =
     (case barriers slf d of None \<Rightarrow> False | Some b \<Rightarrow> check env b = None)"

definition fetch_returns :: "'b env \<Rightarrow> api_client \<Rightarrow> DataSetType \<Rightarrow> bool" where
  "fetch_returns env a d =
     (case dispatch env a d of Some (evs, Inr fragment) \<Rightarrow> True | _ \<Rightarrow> False)"

definition fetch_raises :: "'b env \<Rightarrow> api_client \<Rightarrow> DataSetType \<Rightarrow> exn \<Rightarrow> bool" where
  "fetch_raises env a d e =
     (case dispatch env a d of Some (evs, Inl e') \<Rightarrow> e' = e | _ \<Rightarrow> False)"

text \<open>
  \<open>absorbed\<close>: nothing raised while the data set is processed leaves the loop; that is,
  a clause of the first \<^verbatim>\<open>try\<close> catches what its barrier check raises (\<^verbatim>\<open>KeyError\<close> or
  \<^verbatim>\<open>BarrierDeniedError\<close>), and a clause of the second what its fetch raises (an instance
  of \<^verbatim>\<open>Exception\<close>).
\<close>

definition absorbed :: "'b env \<Rightarrow> 'b IDeCoordinator \<Rightarrow> DataSetType \<Rightarrow> bool" where
  "absorbed env slf d =
     (case barriers slf d of
        None \<Rightarrow> True
      | Some b \<Rightarrow>
          (case check env b of
             Some e \<Rightarrow> barrier_handler d e \<noteq> None
           | None \<Rightarrow>
               (case dispatch env (api slf) d of
                  Some (evs, Inl e) \<Rightarrow> fetch_handler d e \<noteq> None
                | _ \<Rightarrow> True)))"

definition now_is_utc :: "datetime option \<Rightarrow> bool" where
  "now_is_utc now = (case now of None \<Rightarrow> True | Some t \<Rightarrow> tzinfo t = Some timezone_utc)"

text \<open>Two timestamps show the same wall clock.\<close>

definition same_wall_clock :: "datetime \<Rightarrow> datetime \<Rightarrow> bool" where
  "same_wall_clock a b \<longleftrightarrow>
     year a = year b \<and> month a = month b \<and> day a = day b \<and> hour a = hour b \<and>
     minute a = minute b \<and> second a = second b \<and> microsecond a = microsecond b"

definition annotated :: "tzinfo \<Rightarrow> datetime \<Rightarrow> datetime \<Rightarrow> bool" where
  "annotated tz raw normalized \<longleftrightarrow>
     same_wall_clock normalized raw \<and> tzinfo normalized = Some tz"

text \<open>
  The requested bitmask as the specification words it: the union of the data sets
  declared by the registered sensors.
\<close>

definition declared_union :: "IDeEntity list \<Rightarrow> int" where
  "declared_union sensor_list =
     foldr (\<lambda>d u. DataSetType_value d OR u) (concat (map I_DE_DATA_SETS sensor_list)) 0"

subsection \<open>A concrete installation\<close>

text \<open>
  A barrier that allows once: \<open>True\<close> lets the next check pass, a success turns it to
  \<open>False\<close>, and then the check is denied.
\<close>

definition sample_datetime :: datetime where
  "sample_datetime =
     \<lparr>year = 2024, month = 1, day = 1, hour = 0, minute = 0, second = 0, microsecond = 0,
      tzinfo = None\<rparr>"

definition sample_env :: "bool env" where
  "sample_env =
     \<lparr>check = (\<lambda>b. if b then None else Some (BarrierDeniedError ''too soon'')),
      success = (\<lambda>b. False),
      utcnow = sample_datetime,
      today = 1000,
      HISTORICAL_PERIOD_LENGHT = 7,
      LOCAL_TZ = ZoneInfo ''Europe/Madrid''\<rparr>"

definition sample_period :: PeriodValue where
  "sample_period = \<lparr>start = sample_datetime, end' = sample_datetime\<lparr>hour := 1\<rparr>, period_value = 3\<rparr>"

definition sample_api :: api_client where
  "sample_api =
     \<lparr>get_measure = Inr \<lparr>accumulate = 42, instant = 5\<rparr>,
      get_historical_consumption =
        (\<lambda>s e. Inr \<lparr>periods = [sample_period], accumulated = 3, accumulated_co2 = 1\<rparr>),
      get_historical_generation =
        (\<lambda>s e. Inr \<lparr>generation_periods = [], generation_accumulated = 0,
                     generation_accumulated_co2 = 0\<rparr>),
      get_historical_power_demand = Inl (RequestFailedError ''Too Many Requests'' 429)\<rparr>"

text \<open>Barriers for all data sets but the historical consumption.\<close>

definition sample_coordinator :: "bool IDeCoordinator" where
  "sample_coordinator =
     init sample_api
       [MEASURE \<mapsto> True, HISTORICAL_GENERATION \<mapsto> True, HISTORICAL_POWER_DEMAND \<mapsto> True]"

text \<open>An API client whose requests are cancelled or refused.\<close>

definition cancelled_api :: api_client where
  "cancelled_api =
     sample_api\<lparr>get_measure := Inl (OtherBaseException ''asyncio.CancelledError'')\<rparr>"

definition refusing_api :: api_client where
  "refusing_api =
     sample_api\<lparr>get_historical_generation :=
       (\<lambda>s e. Inl (RequestFailedError ''Service Unavailable'' 503))\<rparr>"


text \<open>An API client that answers the request for the power demand.\<close>

definition demand_api :: api_client where
  "demand_api =
     sample_api\<lparr>get_historical_power_demand :=
       Inr \<lparr>demands = [\<lparr>dt = sample_datetime, demand_value = 4\<rparr>]\<rparr>\<rparr>"

text \<open>
  The calls made by one pass through the loop body for a data set, as a function of the
  coordinator the pass starts from.
\<close>

definition step_events :: "'b env \<Rightarrow> 'b IDeCoordinator \<Rightarrow> DataSetType \<Rightarrow> event list" where
  "step_events env slf d =
     events (fst (process_dataset env d \<lparr>self = slf, local_data = Map.empty, events = []\<rparr>))"

text \<open>
  The sample installation with earlier values in two slots and two sensors registered,
  for the measure and for the power demand.
\<close>

definition sensed_coordinator :: "bool IDeCoordinator" where
  "sensed_coordinator =
     register_sensor
       (register_sensor
          (sample_coordinator
             \<lparr>data := init_data
                (DATA_ATTR_MEASURE_ACCUMULATED \<mapsto> PyInt 41,
                 DATA_ATTR_HISTORICAL_POWER_DEMAND \<mapsto>
                   PyHistoricalPowerDemand \<lparr>demands = []\<rparr>)\<rparr>)
          \<lparr>entity_name = ''Accumulated Consumption'', I_DE_DATA_SETS = [MEASURE]\<rparr>)
       \<lparr>entity_name = ''Power Demand'', I_DE_DATA_SETS = [HISTORICAL_POWER_DEMAND]\<rparr>"

section \<open>Auxiliary facts\<close>

subsection \<open>The enumeration and the handlers\<close>

lemma requested_iff:
  "d \<in> set (requested datasets) \<longleftrightarrow>
     d \<in> {MEASURE, HISTORICAL_CONSUMPTION, HISTORICAL_GENERATION, HISTORICAL_POWER_DEMAND}
     \<and> DataSetType_value d AND datasets \<noteq> 0"
  by (cases d) (auto simp: requested_def requested_from_def DataSetType_iter_def)

lemma distinct_requested: "distinct (requested datasets)"
  by (simp add: requested_def requested_from_def DataSetType_iter_def)

lemma fetch_handler_iff: "fetch_handler d e \<noteq> None \<longleftrightarrow> is_Exception e"
  by (cases e) auto

lemma dispatch_requests:
  "dispatch env a d = Some (evs, r) \<Longrightarrow>
     \<forall>ev\<in>set evs. \<exists>req. ev = ApiCall req \<and> request_dataset req = d"
  by (cases d)
     (auto simp: get_direct_reading_data_def get_historical_consumption_data_def
        get_historical_generation_data_def get_historical_power_demand_data_def Let_def)

lemma dispatch_events:
  "dispatch env a d = Some (evs, r) \<Longrightarrow> \<forall>ev\<in>set evs. event_dataset ev = Some d"
  by (auto dest!: dispatch_requests)

lemma dispatch_dom:
  "dispatch env a d = Some (evs, Inr fragment) \<Longrightarrow> dom fragment = fragment_keys d"
  by (cases d)
     (auto simp: get_direct_reading_data_def get_historical_consumption_data_def
        get_historical_generation_data_def get_historical_power_demand_data_def Let_def
        split: sum.splits if_splits)

lemma fragment_keys_disjoint:
  "d \<noteq> d' \<Longrightarrow> fragment_keys d \<inter> fragment_keys d' = {}"
  by (cases d; cases d') auto

lemma barrier_handler_dataset: "barrier_handler d e = Some msg \<Longrightarrow> log_dataset msg = Some d"
  by (cases e) auto

lemma fetch_handler_dataset: "fetch_handler d e = Some msg \<Longrightarrow> log_dataset msg = Some d"
  by (cases e) (auto split: if_splits)

lemma process_dataset_cases [consumes 1, case_names no_barrier check_caught check_raised not_implemented fetch_caught fetch_raised succeeded]:
  assumes "process_dataset env d s = (s', r)"
  obtains
    "barriers (self s) d = None" "s' = emit [Log (UpdateIgnoredNoBarrier d)] s" "r = None"
  | b e msg where "barriers (self s) d = Some b" "check env b = Some e"
      "barrier_handler d e = Some msg" "s' = emit [BarrierCheck d, Log msg] s" "r = None"
  | b e where "barriers (self s) d = Some b" "check env b = Some e"
      "barrier_handler d e = None" "s' = emit [BarrierCheck d] s" "r = Some e"
  | b where "barriers (self s) d = Some b" "check env b = None"
      "dispatch env (api (self s)) d = None"
      "s' = emit [BarrierCheck d, Log (UpdateAllowed d), Log (UpdateIgnoredNotImplemented d)] s"
      "r = None"
  | b evs e msg where "barriers (self s) d = Some b" "check env b = None"
      "dispatch env (api (self s)) d = Some (evs, Inl e)" "fetch_handler d e = Some msg"
      "s' = emit ([BarrierCheck d, Log (UpdateAllowed d), Fetch d] @ evs @ [Log msg]) s"
      "r = None"
  | b evs e where "barriers (self s) d = Some b" "check env b = None"
      "dispatch env (api (self s)) d = Some (evs, Inl e)" "fetch_handler d e = None"
      "s' = emit ([BarrierCheck d, Log (UpdateAllowed d), Fetch d] @ evs) s"
      "r = Some e"
  | b evs fragment where "barriers (self s) d = Some b" "check env b = None"
      "dispatch env (api (self s)) d = Some (evs, Inr fragment)"
      "s' = emit ([BarrierCheck d, Log (UpdateAllowed d), Fetch d] @ evs @
                   [BarrierSuccess d, Log (UpdateSuccessful d)])
              (s\<lparr>local_data := local_data s ++ fragment,
                 self := (self s)\<lparr>barriers := (barriers (self s))(d \<mapsto> success env b)\<rparr>\<rparr>)"
      "r = None"
  using assms
  by (auto simp: process_dataset_def emit_def Let_def
      split: option.splits sum.splits prod.splits)

lemma process_dataset_frame:
  assumes "process_dataset env d' s = (s', r)"
  shows "api (self s') = api (self s)" "data (self s') = data (self s)"
    "sensors (self s') = sensors (self s)"
    "d \<noteq> d' \<Longrightarrow> barriers (self s') d = barriers (self s) d"
    "dom (barriers (self s')) = dom (barriers (self s))"
  using assms
  by (cases rule: process_dataset_cases; auto simp: emit_def)+

text \<open>Every call made while a data set is processed is about that data set.\<close>

lemma process_dataset_events:
  assumes "process_dataset env d s = (s', r)"
  shows "\<exists>evs. events s' = events s @ evs \<and> (\<forall>ev\<in>set evs. event_dataset ev = Some d)"
  using assms
  by (cases rule: process_dataset_cases)
     (auto simp: emit_def dest: dispatch_events barrier_handler_dataset fetch_handler_dataset)

lemma update_loop_invariant:
  assumes "P s"
    and "\<And>d s s' r. d \<in> set ds \<Longrightarrow> P s \<Longrightarrow> process_dataset env d s = (s', r) \<Longrightarrow> P s'"
  shows "P (fst (update_loop env ds s))"
  using assms
proof (induction ds arbitrary: s)
  case Nil
  then show ?case by simp
next
  case (Cons d ds)
  obtain s1 r1 where step: "process_dataset env d s = (s1, r1)"
    by (cases "process_dataset env d s")
  have P1: "P s1" using Cons.prems(2) [OF _ Cons.prems(1) step] by simp
  show ?case
  proof (cases r1)
    case None
    have "P (fst (update_loop env ds s1))"
      by (rule Cons.IH [OF P1]) (rule Cons.prems(2), auto)
    with step None show ?thesis by simp
  next
    case (Some e)
    with step P1 show ?thesis by simp
  qed
qed

subsection \<open>The loop\<close>

lemma update_loop_Cons_cases [consumes 1, case_names continue raised]:
  assumes "update_loop env (d # ds) s = (s', r)"
  obtains s1 where "process_dataset env d s = (s1, None)" "update_loop env ds s1 = (s', r)"
  | e where "process_dataset env d s = (s', Some e)" "r = Some e"
  using assms by (auto split: prod.splits option.splits)

lemma update_loop_frame:
  assumes "update_loop env ds s = (s', r)"
  shows "api (self s') = api (self s) \<and> data (self s') = data (self s) \<and>
         sensors (self s') = sensors (self s) \<and>
         (\<forall>d. d \<notin> set ds \<longrightarrow> barriers (self s') d = barriers (self s) d)"
  using assms
proof (induction ds arbitrary: s)
  case Nil
  then show ?case by simp
next
  case (Cons d ds)
  from Cons.prems show ?case
  proof (cases rule: update_loop_Cons_cases)
    case (continue s1)
    from Cons.IH [OF continue(2)] process_dataset_frame [OF continue(1)]
    show ?thesis by auto
  next
    case (raised e)
    from process_dataset_frame [OF raised(1)] show ?thesis by auto
  qed
qed

lemma absorbed_step:
  assumes "process_dataset env d s = (s', r)" "absorbed env (self s) d"
  shows "r = None"
  using assms
  by (cases rule: process_dataset_cases) (auto simp: absorbed_def)

lemma absorbed_frame:
  assumes "api slf' = api slf" "barriers slf' d = barriers slf d"
  shows "absorbed env slf' d = absorbed env slf d"
  using assms unfolding absorbed_def by (auto split: option.splits)

lemma update_loop_completes:
  assumes "distinct ds" "\<forall>d\<in>set ds. absorbed env (self s) d"
  shows "snd (update_loop env ds s) = None"
  using assms
proof (induction ds arbitrary: s)
  case Nil
  then show ?case by simp
next
  case (Cons d ds)
  obtain s1 r1 where step: "process_dataset env d s = (s1, r1)"
    by (cases "process_dataset env d s")
  have r1: "r1 = None" using absorbed_step [OF step] Cons.prems(2) by simp
  have "\<forall>d'\<in>set ds. absorbed env (self s1) d'"
  proof
    fix d' assume d': "d' \<in> set ds"
    with Cons.prems(1) have "d' \<noteq> d" by auto
    with process_dataset_frame [OF step] have "absorbed env (self s1) d' = absorbed env (self s) d'"
      by (intro absorbed_frame) auto
    with Cons.prems(2) d' show "absorbed env (self s1) d'" by simp
  qed
  with Cons.IH [of s1] Cons.prems(1) have "snd (update_loop env ds s1) = None" by simp
  with step r1 show ?case by simp
qed

text \<open>What one pass through the body records about its own data set.\<close>

lemma process_dataset_summary:
  assumes "process_dataset env d s = (s', r)"
  shows "\<exists>evs. events s' = events s @ evs \<and> (\<forall>ev\<in>set evs. event_dataset ev = Some d) \<and>
     (BarrierCheck d \<in> set evs \<longleftrightarrow> barriers (self s) d \<noteq> None) \<and>
     (BarrierSuccess d \<in> set evs \<longleftrightarrow>
        check_returns env (self s) d \<and> fetch_returns env (api (self s)) d) \<and>
     barriers (self s') d =
       (if BarrierSuccess d \<in> set evs then map_option (success env) (barriers (self s) d)
        else barriers (self s) d) \<and>
     dom (local_data s') =
       dom (local_data s) \<union> (if BarrierSuccess d \<in> set evs then fragment_keys d else {})"
  using assms
proof (cases rule: process_dataset_cases)
  case no_barrier
  then show ?thesis by (auto simp: emit_def check_returns_def)
next
  case (check_caught b e msg)
  then show ?thesis
    by (auto simp: emit_def check_returns_def dest: barrier_handler_dataset)
next
  case (check_raised b e)
  then show ?thesis by (auto simp: emit_def check_returns_def)
next
  case (not_implemented b)
  then show ?thesis by (auto simp: emit_def check_returns_def fetch_returns_def)
next
  case (fetch_caught b evs e msg)
  from dispatch_requests [OF fetch_caught(3)] dispatch_events [OF fetch_caught(3)]
    fetch_handler_dataset [OF fetch_caught(4)]
  have "BarrierSuccess d \<notin> set evs" "log_dataset msg = Some d"
    "\<forall>ev\<in>set evs. event_dataset ev = Some d" by auto
  with fetch_caught show ?thesis
    by (auto simp: emit_def check_returns_def fetch_returns_def)
next
  case (fetch_raised b evs e)
  from dispatch_requests [OF fetch_raised(3)] dispatch_events [OF fetch_raised(3)]
  have "BarrierSuccess d \<notin> set evs" "\<forall>ev\<in>set evs. event_dataset ev = Some d" by auto
  with fetch_raised show ?thesis
    by (auto simp: emit_def check_returns_def fetch_returns_def)
next
  case (succeeded b evs fragment)
  from dispatch_events [OF succeeded(3)] dispatch_dom [OF succeeded(3)]
  have "\<forall>ev\<in>set evs. event_dataset ev = Some d" "dom fragment = fragment_keys d" by auto
  with succeeded show ?thesis
    by (auto simp: emit_def check_returns_def fetch_returns_def)
qed


lemma check_returns_frame:
  "barriers slf' d = barriers slf d \<Longrightarrow> check_returns env slf' d = check_returns env slf d"
  by (simp add: check_returns_def)

lemma about_other:
  assumes "\<forall>ev\<in>set evs. event_dataset ev = Some d" "d' \<noteq> d"
  shows "BarrierCheck d' \<notin> set evs" "BarrierSuccess d' \<notin> set evs" "Fetch d' \<notin> set evs"
  using assms by auto

lemma about_others:
  assumes "\<forall>ev\<in>set evs. \<exists>d\<in>set ds. event_dataset ev = Some d" "d' \<notin> set ds"
  shows "BarrierCheck d' \<notin> set evs" "BarrierSuccess d' \<notin> set evs" "Fetch d' \<notin> set evs"
  using assms by fastforce+

lemma update_loop_summary:
  assumes "update_loop env ds s = (s', r)" "distinct ds"
  shows "\<exists>evs. events s' = events s @ evs \<and>
     (\<forall>ev\<in>set evs. \<exists>d\<in>set ds. event_dataset ev = Some d) \<and>
     (\<forall>d. (BarrierSuccess d \<in> set evs \<longleftrightarrow>
             BarrierCheck d \<in> set evs \<and> check_returns env (self s) d \<and>
             fetch_returns env (api (self s)) d) \<and>
          barriers (self s') d =
            (if BarrierSuccess d \<in> set evs then map_option (success env) (barriers (self s) d)
             else barriers (self s) d)) \<and>
     dom (local_data s') =
       dom (local_data s) \<union> (\<Union>d\<in>{d. BarrierSuccess d \<in> set evs}. fragment_keys d) \<and>
     (r = None \<longrightarrow> (\<forall>d\<in>set ds. BarrierCheck d \<in> set evs \<longleftrightarrow> barriers (self s) d \<noteq> None))"
  using assms
proof (induction ds arbitrary: s)
  case Nil
  then show ?case by simp
next
  case (Cons d ds)
  have d_fresh: "d \<notin> set ds" and dist: "distinct ds" using Cons.prems(2) by auto
  obtain s1 r1 where step: "process_dataset env d s = (s1, r1)"
    by (cases "process_dataset env d s")
  from process_dataset_summary [OF step] obtain evs1 where
    ev1: "events s1 = events s @ evs1" and
    about1: "\<forall>ev\<in>set evs1. event_dataset ev = Some d" and
    chk1: "BarrierCheck d \<in> set evs1 \<longleftrightarrow> barriers (self s) d \<noteq> None" and
    suc1: "BarrierSuccess d \<in> set evs1 \<longleftrightarrow>
             check_returns env (self s) d \<and> fetch_returns env (api (self s)) d" and
    bar1: "barriers (self s1) d =
             (if BarrierSuccess d \<in> set evs1 then map_option (success env) (barriers (self s) d)
              else barriers (self s) d)" and
    dom1: "dom (local_data s1) =
             dom (local_data s) \<union> (if BarrierSuccess d \<in> set evs1 then fragment_keys d else {})"
    by blast
  note frame1 = process_dataset_frame [OF step]
  have only1: "{d'. BarrierSuccess d' \<in> set evs1} =
                 (if BarrierSuccess d \<in> set evs1 then {d} else {})"
    using about1 by (auto split: if_splits)
  have cr_implies: "check_returns env (self s) d \<Longrightarrow> barriers (self s) d \<noteq> None"
    by (auto simp: check_returns_def split: option.splits)
  from Cons.prems(1) show ?case
  proof (cases rule: update_loop_Cons_cases)
    case (continue s2)
    with step have s2: "s2 = s1" by simp
    from Cons.IH [OF continue(2) dist] obtain evs2 where IH2:
      "events s' = events s2 @ evs2 \<and>
       (\<forall>ev\<in>set evs2. \<exists>d\<in>set ds. event_dataset ev = Some d) \<and>
       (\<forall>d. (BarrierSuccess d \<in> set evs2 \<longleftrightarrow>
               BarrierCheck d \<in> set evs2 \<and> check_returns env (self s2) d \<and>
               fetch_returns env (api (self s2)) d) \<and>
            barriers (self s') d =
              (if BarrierSuccess d \<in> set evs2
               then map_option (success env) (barriers (self s2) d)
               else barriers (self s2) d)) \<and>
       dom (local_data s') =
         dom (local_data s2) \<union> (\<Union>d\<in>{d. BarrierSuccess d \<in> set evs2}. fragment_keys d) \<and>
       (r = None \<longrightarrow>
          (\<forall>d\<in>set ds. BarrierCheck d \<in> set evs2 \<longleftrightarrow> barriers (self s2) d \<noteq> None))"
      ..
    from IH2 have ev2: "events s' = events s1 @ evs2"
      unfolding s2 by (elim conjE)
    from IH2 have about2: "\<forall>ev\<in>set evs2. \<exists>d\<in>set ds. event_dataset ev = Some d"
      by (elim conjE)
    from IH2 have sucbar2:
      "\<forall>d. (BarrierSuccess d \<in> set evs2 \<longleftrightarrow>
               BarrierCheck d \<in> set evs2 \<and> check_returns env (self s1) d \<and>
               fetch_returns env (api (self s1)) d) \<and>
            barriers (self s') d =
              (if BarrierSuccess d \<in> set evs2
               then map_option (success env) (barriers (self s1) d)
               else barriers (self s1) d)"
      unfolding s2 by (elim conjE)
    from IH2 have dom2: "dom (local_data s') =
         dom (local_data s1) \<union> (\<Union>d\<in>{d. BarrierSuccess d \<in> set evs2}. fragment_keys d)"
      unfolding s2 by (elim conjE)
    from IH2 have chk2: "r = None \<longrightarrow>
          (\<forall>d\<in>set ds. BarrierCheck d \<in> set evs2 \<longleftrightarrow> barriers (self s1) d \<noteq> None)"
      unfolding s2 by (elim conjE)
    have suc2: "BarrierSuccess d' \<in> set evs2 \<longleftrightarrow>
             BarrierCheck d' \<in> set evs2 \<and> check_returns env (self s1) d' \<and>
             fetch_returns env (api (self s1)) d'" for d'
      using sucbar2 by (elim allE [of _ d'] conjE)
    have bar2: "barriers (self s') d' =
             (if BarrierSuccess d' \<in> set evs2
              then map_option (success env) (barriers (self s1) d')
              else barriers (self s1) d')" for d'
      using sucbar2 by (elim allE [of _ d'] conjE)
    note no2 = about_others [OF about2 d_fresh]
    let ?evs = "evs1 @ evs2"
    have A: "events s' = events s @ ?evs" using ev1 ev2 by simp
    have B: "\<forall>ev\<in>set ?evs. \<exists>d'\<in>set (d # ds). event_dataset ev = Some d'"
      using about1 about2 by auto
    have C: "(BarrierSuccess d' \<in> set ?evs \<longleftrightarrow>
             BarrierCheck d' \<in> set ?evs \<and> check_returns env (self s) d' \<and>
             fetch_returns env (api (self s)) d') \<and>
          barriers (self s') d' =
            (if BarrierSuccess d' \<in> set ?evs then map_option (success env) (barriers (self s) d')
             else barriers (self s) d')" for d'
    proof (cases "d' = d")
      case True
      with no2 suc1 chk1 bar1 bar2 [of d] cr_implies show ?thesis by auto
    next
      case False
      note no1 = about_other [OF about1 False]
      from False frame1 have "barriers (self s1) d' = barriers (self s) d'"
        "api (self s1) = api (self s)" by auto
      with no1 suc2 [of d'] bar2 [of d'] check_returns_frame [of "self s1" d' "self s" env]
      show ?thesis by auto
    qed
    have D: "dom (local_data s') =
       dom (local_data s) \<union> (\<Union>d\<in>{d. BarrierSuccess d \<in> set ?evs}. fragment_keys d)"
    proof -
      have "{d'. BarrierSuccess d' \<in> set ?evs} =
              {d'. BarrierSuccess d' \<in> set evs1} \<union> {d'. BarrierSuccess d' \<in> set evs2}"
        by auto
      with dom1 dom2 only1 show ?thesis by (auto split: if_splits)
    qed
    have E: "r = None \<longrightarrow>
       (\<forall>d'\<in>set (d # ds). BarrierCheck d' \<in> set ?evs \<longleftrightarrow> barriers (self s) d' \<noteq> None)"
    proof (intro impI ballI)
      fix d' assume r: "r = None" and d': "d' \<in> set (d # ds)"
      show "BarrierCheck d' \<in> set ?evs \<longleftrightarrow> barriers (self s) d' \<noteq> None"
      proof (cases "d' = d")
        case True
        with no2 chk1 show ?thesis by auto
      next
        case False
        with d' have "d' \<in> set ds" by simp
        moreover from False frame1 have "barriers (self s1) d' = barriers (self s) d'" by auto
        ultimately show ?thesis using chk2 r about_other [OF about1 False] by auto
      qed
    qed
    from A B C D E show ?thesis by blast
  next
    case (raised e)
    with step have s': "s' = s1" by simp
    have A: "events s' = events s @ evs1" using ev1 s' by simp
    have B: "\<forall>ev\<in>set evs1. \<exists>d'\<in>set (d # ds). event_dataset ev = Some d'"
      using about1 by auto
    have C: "(BarrierSuccess d' \<in> set evs1 \<longleftrightarrow>
             BarrierCheck d' \<in> set evs1 \<and> check_returns env (self s) d' \<and>
             fetch_returns env (api (self s)) d') \<and>
          barriers (self s') d' =
            (if BarrierSuccess d' \<in> set evs1 then map_option (success env) (barriers (self s) d')
             else barriers (self s) d')" for d'
    proof (cases "d' = d")
      case True
      with suc1 chk1 bar1 cr_implies s' show ?thesis by auto
    next
      case False
      from False frame1 s' have "barriers (self s') d' = barriers (self s) d'" by auto
      with about_other [OF about1 False] show ?thesis by auto
    qed
    have D: "dom (local_data s') =
       dom (local_data s) \<union> (\<Union>d\<in>{d. BarrierSuccess d \<in> set evs1}. fragment_keys d)"
      using dom1 only1 s' by (auto split: if_splits)
    have E: "r = None \<longrightarrow>
       (\<forall>d'\<in>set (d # ds). BarrierCheck d' \<in> set evs1 \<longleftrightarrow> barriers (self s) d' \<noteq> None)"
      using raised by simp
    from A B C D E show ?thesis by blast
  qed
qed

subsection \<open>One tick\<close>

lemma now_is_utc_None: "tzinfo (dt_util_utcnow env) = Some timezone_utc"
  by (simp add: dt_util_utcnow_def replace_tzinfo_def)

lemma async_update_data_raw_cases [consumes 1, case_names not_utc looped]:
  assumes "async_update_data_raw env slf datasets now = (slf', evs, r)"
  obtains "\<not> now_is_utc now" "slf' = slf" "evs = []"
      "r = Inl (ValueError ''now is missing tzinfo field'')"
  | s' e where "now_is_utc now"
      "update_loop env (requested datasets) \<lparr>self = slf, local_data = Map.empty, events = []\<rparr>
         = (s', e)"
      "slf' = self s'" "evs = events s'"
      "r = (case e of None \<Rightarrow> Inr (local_data s') | Some x \<Rightarrow> Inl x)"
  using assms
  by (cases now)
     (auto simp: async_update_data_raw_def now_is_utc_def now_is_utc_None Let_def
        split: if_splits prod.splits option.splits)

lemma tick_summary:
  assumes "async_update_data_raw env slf datasets now = (slf', evs, r)"
  shows "api slf' = api slf" "data slf' = data slf" "sensors slf' = sensors slf"
    "\<forall>ev\<in>set evs. \<exists>d\<in>set (requested datasets). event_dataset ev = Some d"
    "BarrierSuccess d \<in> set evs \<longleftrightarrow>
       BarrierCheck d \<in> set evs \<and> check_returns env slf d \<and> fetch_returns env (api slf) d"
    "barriers slf' d =
       (if BarrierSuccess d \<in> set evs then map_option (success env) (barriers slf d)
        else barriers slf d)"
    "r = Inr m \<Longrightarrow> dom m = (\<Union>d\<in>{d. BarrierSuccess d \<in> set evs}. fragment_keys d)"
    "r = Inr m \<Longrightarrow> d \<in> set (requested datasets) \<Longrightarrow>
       BarrierCheck d \<in> set evs \<longleftrightarrow> barriers slf d \<noteq> None"
proof -
  let ?s0 = "\<lparr>self = slf, local_data = Map.empty, events = []\<rparr>"
  have "api slf' = api slf \<and> data slf' = data slf \<and> sensors slf' = sensors slf \<and>
    (\<forall>ev\<in>set evs. \<exists>d\<in>set (requested datasets). event_dataset ev = Some d) \<and>
    (BarrierSuccess d \<in> set evs \<longleftrightarrow>
       BarrierCheck d \<in> set evs \<and> check_returns env slf d \<and> fetch_returns env (api slf) d) \<and>
    barriers slf' d =
       (if BarrierSuccess d \<in> set evs then map_option (success env) (barriers slf d)
        else barriers slf d) \<and>
    (r = Inr m \<longrightarrow> dom m = (\<Union>d\<in>{d. BarrierSuccess d \<in> set evs}. fragment_keys d)) \<and>
    (r = Inr m \<longrightarrow> d \<in> set (requested datasets) \<longrightarrow>
       (BarrierCheck d \<in> set evs \<longleftrightarrow> barriers slf d \<noteq> None))"
    using assms
  proof (cases rule: async_update_data_raw_cases)
    case not_utc
    then show ?thesis by simp
  next
    case (looped s' e)
    from update_loop_summary [OF looped(2) distinct_requested] obtain evs' where S:
      "events s' = events ?s0 @ evs' \<and>
     (\<forall>ev\<in>set evs'. \<exists>d\<in>set (requested datasets). event_dataset ev = Some d) \<and>
     (\<forall>d. (BarrierSuccess d \<in> set evs' \<longleftrightarrow>
             BarrierCheck d \<in> set evs' \<and> check_returns env (self ?s0) d \<and>
             fetch_returns env (api (self ?s0)) d) \<and>
          barriers (self s') d =
            (if BarrierSuccess d \<in> set evs' then map_option (success env) (barriers (self ?s0) d)
             else barriers (self ?s0) d)) \<and>
     dom (local_data s') =
       dom (local_data ?s0) \<union> (\<Union>d\<in>{d. BarrierSuccess d \<in> set evs'}. fragment_keys d) \<and>
     (e = None \<longrightarrow> (\<forall>d\<in>set (requested datasets). BarrierCheck d \<in> set evs' \<longleftrightarrow> barriers (self ?s0) d \<noteq> None))"
      ..
    from S have evs': "evs' = evs" using looped(4) by simp
    note F = update_loop_frame [OF looped(2)]
    from S have P1: "\<forall>ev\<in>set evs. \<exists>d\<in>set (requested datasets). event_dataset ev = Some d"
      unfolding evs' by (elim conjE)
    from S have P2: "\<forall>d. (BarrierSuccess d \<in> set evs \<longleftrightarrow>
             BarrierCheck d \<in> set evs \<and> check_returns env (self ?s0) d \<and>
             fetch_returns env (api (self ?s0)) d) \<and>
          barriers (self s') d =
            (if BarrierSuccess d \<in> set evs then map_option (success env) (barriers (self ?s0) d)
             else barriers (self ?s0) d)"
      unfolding evs' by (elim conjE)
    from S have P3: "dom (local_data s') =
       dom (local_data ?s0) \<union> (\<Union>d\<in>{d. BarrierSuccess d \<in> set evs}. fragment_keys d)"
      unfolding evs' by (elim conjE)
    from S have P4: "e = None \<longrightarrow> (\<forall>d\<in>set (requested datasets). BarrierCheck d \<in> set evs \<longleftrightarrow> barriers (self ?s0) d \<noteq> None)"
      unfolding evs' by (elim conjE)
    have Q: "r = Inr m \<Longrightarrow> e = None \<and> m = local_data s'"
      using looped(5) by (cases e) auto
    have R1: "api slf' = api slf \<and> data slf' = data slf \<and> sensors slf' = sensors slf"
      using F looped(3) by simp
    have R2: "(BarrierSuccess d \<in> set evs \<longleftrightarrow>
       BarrierCheck d \<in> set evs \<and> check_returns env slf d \<and> fetch_returns env (api slf) d) \<and>
      barriers slf' d =
       (if BarrierSuccess d \<in> set evs then map_option (success env) (barriers slf d)
        else barriers slf d)"
      using spec [OF P2, of d] looped(3) by simp
    have R3: "r = Inr m \<longrightarrow> dom m = (\<Union>d\<in>{d. BarrierSuccess d \<in> set evs}. fragment_keys d)"
    proof
      assume "r = Inr m"
      with Q have "m = local_data s'" by simp
      with P3 show "dom m = (\<Union>d\<in>{d. BarrierSuccess d \<in> set evs}. fragment_keys d)"
        by (simp only: loop_state.simps dom_empty Un_empty_left)
    qed
    have R4: "r = Inr m \<longrightarrow> d \<in> set (requested datasets) \<longrightarrow>
       (BarrierCheck d \<in> set evs \<longleftrightarrow> barriers slf d \<noteq> None)"
      using P4 Q by simp
    from R1 P1 R2 R3 R4 show ?thesis by (intro conjI) (elim conjE, assumption)+
  qed
  then show "api slf' = api slf" "data slf' = data slf" "sensors slf' = sensors slf"
    "\<forall>ev\<in>set evs. \<exists>d\<in>set (requested datasets). event_dataset ev = Some d"
    "BarrierSuccess d \<in> set evs \<longleftrightarrow>
       BarrierCheck d \<in> set evs \<and> check_returns env slf d \<and> fetch_returns env (api slf) d"
    "barriers slf' d =
       (if BarrierSuccess d \<in> set evs then map_option (success env) (barriers slf d)
        else barriers slf d)"
    "r = Inr m \<Longrightarrow> dom m = (\<Union>d\<in>{d. BarrierSuccess d \<in> set evs}. fragment_keys d)"
    "r = Inr m \<Longrightarrow> d \<in> set (requested datasets) \<Longrightarrow>
       BarrierCheck d \<in> set evs \<longleftrightarrow> barriers slf d \<noteq> None"
    by blast+
qed

lemma tick_completes:
  assumes "now_is_utc now" "\<forall>d\<in>set (requested datasets). absorbed env slf d"
  shows "\<exists>m. snd (snd (async_update_data_raw env slf datasets now)) = Inr m"
proof -
  let ?s0 = "\<lparr>self = slf, local_data = Map.empty, events = []\<rparr>"
  obtain slf' evs r where t: "async_update_data_raw env slf datasets now = (slf', evs, r)"
    by (cases "async_update_data_raw env slf datasets now")
  from t show ?thesis
  proof (cases rule: async_update_data_raw_cases)
    case not_utc
    with assms show ?thesis by simp
  next
    case (looped s' e)
    from update_loop_completes [of "requested datasets" env ?s0] assms(2) distinct_requested
    have "snd (update_loop env (requested datasets) ?s0) = None" by simp
    with looped t show ?thesis by simp
  qed
qed

text \<open>A data set of which nothing was recorded as a success leaves no key.\<close>

lemma tick_no_keys:
  assumes "async_update_data_raw env slf datasets now = (slf', evs, Inr m)"
    and "BarrierSuccess d \<notin> set evs"
  shows "dom m \<inter> fragment_keys d = {}"
proof -
  from tick_summary(7) [OF assms(1)]
  have "dom m = (\<Union>d\<in>{d. BarrierSuccess d \<in> set evs}. fragment_keys d)" by simp
  moreover have "fragment_keys d' \<inter> fragment_keys d = {}" if "BarrierSuccess d' \<in> set evs" for d'
    using that assms(2) fragment_keys_disjoint [of d' d] by auto
  ultimately show ?thesis by auto
qed

subsection \<open>Unfolding a tick on concrete inputs\<close>

lemmas sample_defs =
  sample_env_def sample_api_def sample_coordinator_def sample_datetime_def sample_period_def
  init_def init_data_def

lemmas tick_defs =
  async_update_data_raw_def async_update_data_def required_datasets_def
  requested_def requested_from_def DataSetType_iter_def
  process_dataset_def emit_def dt_util_utcnow_def replace_tzinfo_def timezone_utc_def
  get_direct_reading_data_def get_historical_consumption_data_def
  get_historical_generation_data_def get_historical_power_demand_data_def
  normalize_period_item_def normalize_dated_item_def Let_def

section \<open>The timestamp of a tick\<close>

text \<open>
  C3.  When a timestamp is supplied whose \<^verbatim>\<open>tzinfo\<close> is not \<^verbatim>\<open>timezone.utc\<close> (a naive
  timestamp has none), the raw update raises \<^verbatim>\<open>ValueError\<close> before any data set is
  enumerated: the coordinator, and with it every barrier, is as before, and no call at
  all has been made (no barrier checked, no success recorded, no fetch).
\<close>

theorem non_utc_now_raises_before_enumeration:
  assumes "tzinfo t \<noteq> Some timezone_utc"
  shows "async_update_data_raw env slf datasets (Some t) =
           (slf, [], Inl (ValueError ''now is missing tzinfo field''))"
  using assms by (simp add: async_update_data_raw_def)

text \<open>A naive timestamp, and an aware one an hour east of UTC.\<close>

theorem non_utc_now_raises_before_enumeration_witness:
  "tzinfo sample_datetime \<noteq> Some timezone_utc \<and>
   tzinfo (sample_datetime\<lparr>tzinfo := Some (FixedOffset 3600)\<rparr>) \<noteq> Some timezone_utc \<and>
   async_update_data_raw sample_env sample_coordinator 15 (Some sample_datetime) =
     (sample_coordinator, [], Inl (ValueError ''now is missing tzinfo field'')) \<and>
   async_update_data_raw sample_env sample_coordinator 15
       (Some (sample_datetime\<lparr>tzinfo := Some (FixedOffset 3600)\<rparr>)) =
     (sample_coordinator, [], Inl (ValueError ''now is missing tzinfo field''))"
proof -
  have naive: "tzinfo sample_datetime \<noteq> Some timezone_utc"
    by (simp add: sample_datetime_def)
  have other: "tzinfo (sample_datetime\<lparr>tzinfo := Some (FixedOffset 3600)\<rparr>) \<noteq> Some timezone_utc"
    by (simp add: timezone_utc_def)
  show ?thesis
    using naive other
      non_utc_now_raises_before_enumeration [OF naive, of sample_env sample_coordinator 15]
      non_utc_now_raises_before_enumeration [OF other, of sample_env sample_coordinator 15]
    by simp
qed

section \<open>The enumeration of the data sets\<close>

lemma requested_canonical:
  "requested_from DataSetType_iter_canonical datasets = requested datasets"
  by (simp add: requested_def requested_from_def DataSetType_iter_def
      DataSetType_iter_canonical_def)

lemma not_implemented_never_logged:
  assumes "update_loop env ds s = (s', r)"
    and "set ds \<subseteq> {MEASURE, HISTORICAL_CONSUMPTION, HISTORICAL_GENERATION, HISTORICAL_POWER_DEMAND}"
    and "Log (UpdateIgnoredNotImplemented d) \<notin> set (events s)"
  shows "Log (UpdateIgnoredNotImplemented d) \<notin> set (events s')"
proof -
  have "Log (UpdateIgnoredNotImplemented d) \<notin> set (events (fst (update_loop env ds s)))"
  proof (rule update_loop_invariant [where P = "\<lambda>s. Log (UpdateIgnoredNotImplemented d) \<notin> set (events s)"])
    show "Log (UpdateIgnoredNotImplemented d) \<notin> set (events s)" by (rule assms(3))
  next
    fix d' s1 s2 r1
    assume d': "d' \<in> set ds"
      and P: "Log (UpdateIgnoredNotImplemented d) \<notin> set (events s1)"
      and step: "process_dataset env d' s1 = (s2, r1)"
    from d' assms(2) have four: "dispatch env (api (self s1)) d' \<noteq> None" by auto
    from step show "Log (UpdateIgnoredNotImplemented d) \<notin> set (events s2)"
    proof (cases rule: process_dataset_cases)
      case (check_caught b e msg)
      with P show ?thesis by (cases e) (auto simp: emit_def)
    next
      case (fetch_caught b evs e msg)
      with P dispatch_requests [OF fetch_caught(3)] show ?thesis
        by (cases e) (auto simp: emit_def split: if_splits)
    next
      case (fetch_raised b evs e)
      with P dispatch_requests [OF fetch_raised(3)] show ?thesis by (auto simp: emit_def)
    next
      case (succeeded b evs fragment)
      with P dispatch_requests [OF succeeded(3)] show ?thesis by (auto simp: emit_def)
    qed (use P four in \<open>auto simp: emit_def\<close>)
  qed
  with assms(1) show ?thesis by simp
qed

text \<open>
  C7.  Whatever the requested bitmask, the data sets enumerated in a tick never include
  \<^verbatim>\<open>ALL\<close> nor \<^verbatim>\<open>NONE\<close>: they are among the four concrete data sets, a fetch routine is
  only ever invoked for one of these four, and the \<^verbatim>\<open>else\<close> branch of the dispatch
  (\<^verbatim>\<open>not implemented yet\<close>) is never taken.
\<close>

theorem all_sentinel_never_enumerated:
  "ALL' \<notin> set (requested datasets) \<and> NONE \<notin> set (requested datasets) \<and>
   set (requested datasets) \<subseteq>
     {MEASURE, HISTORICAL_CONSUMPTION, HISTORICAL_GENERATION, HISTORICAL_POWER_DEMAND} \<and>
   (\<forall>d. Fetch d \<in> set (fst (snd (async_update_data_raw env slf datasets now))) \<longrightarrow>
        d \<in> {MEASURE, HISTORICAL_CONSUMPTION, HISTORICAL_GENERATION, HISTORICAL_POWER_DEMAND}) \<and>
   (\<forall>d. Log (UpdateIgnoredNotImplemented d) \<notin>
          set (fst (snd (async_update_data_raw env slf datasets now))))"
proof -
  obtain slf' evs r where t: "async_update_data_raw env slf datasets now = (slf', evs, r)"
    by (cases "async_update_data_raw env slf datasets now")
  have sub: "set (requested datasets) \<subseteq>
     {MEASURE, HISTORICAL_CONSUMPTION, HISTORICAL_GENERATION, HISTORICAL_POWER_DEMAND}"
    using requested_iff by blast
  have A: "ALL' \<notin> set (requested datasets) \<and> NONE \<notin> set (requested datasets)"
    by (simp add: requested_iff)
  have B: "d \<in> {MEASURE, HISTORICAL_CONSUMPTION, HISTORICAL_GENERATION, HISTORICAL_POWER_DEMAND}"
    if "Fetch d \<in> set evs" for d
  proof -
    from tick_summary(4) [OF t] that obtain d' where
      "d' \<in> set (requested datasets)" "event_dataset (Fetch d) = Some d'" by blast
    with sub show ?thesis by auto
  qed
  have C: "Log (UpdateIgnoredNotImplemented d) \<notin> set evs" for d
    using t
  proof (cases rule: async_update_data_raw_cases)
    case not_utc
    then show ?thesis by simp
  next
    case (looped s' e)
    from not_implemented_never_logged [OF looped(2) sub, of d] looped(4)
    show ?thesis by simp
  qed
  from A sub B C t show ?thesis by simp
qed

text \<open>With every bit requested, the four data sets are enumerated and \<^verbatim>\<open>ALL\<close> is not fetched.\<close>

theorem all_sentinel_never_enumerated_witness:
  "requested (DataSetType_value ALL') =
     [MEASURE, HISTORICAL_CONSUMPTION, HISTORICAL_GENERATION, HISTORICAL_POWER_DEMAND] \<and>
   Fetch MEASURE \<in> set (fst (snd (async_update_data_raw sample_env sample_coordinator
       (DataSetType_value ALL') None))) \<and>
   MEASURE \<in> {MEASURE, HISTORICAL_CONSUMPTION, HISTORICAL_GENERATION, HISTORICAL_POWER_DEMAND} \<and>
   Fetch ALL' \<notin> set (fst (snd (async_update_data_raw sample_env sample_coordinator
       (DataSetType_value ALL') None)))"
  using all_sentinel_never_enumerated [of "DataSetType_value ALL'" sample_env sample_coordinator None]
  by (simp add: tick_defs sample_defs)


section \<open>Normalisation of timestamps\<close>

text \<open>
  C8.  Normalisation only attaches the configured local zone: in a normalised item each
  timestamp (\<^verbatim>\<open>start\<close> and \<^verbatim>\<open>end\<close> of a period, \<^verbatim>\<open>dt\<close> of a demand) has the year, month,
  day, hour, minute, second and microsecond of the raw one and the local zone as its
  \<^verbatim>\<open>tzinfo\<close>, and the value of the item is untouched.  Every item of a fragment returned
  by the consumption or the power-demand routine is the item of the API's answer at the
  same position, normalised in this way.
\<close>

theorem normalization_annotates:
  "annotated tz (start item) (start (normalize_period_item tz item)) \<and>
   annotated tz (end' item) (end' (normalize_period_item tz item)) \<and>
   period_value (normalize_period_item tz item) = period_value item \<and>
   annotated tz (dt ditem) (dt (normalize_dated_item tz ditem)) \<and>
   demand_value (normalize_dated_item tz ditem) = demand_value ditem \<and>
   (\<forall>evs fragment. get_historical_consumption_data env a = (evs, Inr fragment) \<longrightarrow>
      (\<exists>raw rec.
         get_historical_consumption a (today env - HISTORICAL_PERIOD_LENGHT env) (today env)
           = Inr raw \<and>
         fragment = [DATA_ATTR_HISTORICAL_CONSUMPTION \<mapsto> PyHistoricalConsumption rec] \<and>
         list_all2
           (\<lambda>r n. annotated (LOCAL_TZ env) (start r) (start n) \<and>
                  annotated (LOCAL_TZ env) (end' r) (end' n) \<and>
                  period_value n = period_value r)
           (periods raw) (periods rec))) \<and>
   (\<forall>evs fragment. get_historical_power_demand_data env a = (evs, Inr fragment) \<longrightarrow>
      (\<exists>raw rec.
         get_historical_power_demand a = Inr raw \<and>
         fragment = [DATA_ATTR_HISTORICAL_POWER_DEMAND \<mapsto> PyHistoricalPowerDemand rec] \<and>
         list_all2
           (\<lambda>r n. annotated (LOCAL_TZ env) (dt r) (dt n) \<and> demand_value n = demand_value r)
           (demands raw) (demands rec)))"
proof -
  have item: "annotated tz (start item) (start (normalize_period_item tz item)) \<and>
     annotated tz (end' item) (end' (normalize_period_item tz item)) \<and>
     period_value (normalize_period_item tz item) = period_value item" for tz item
    by (simp add: annotated_def same_wall_clock_def normalize_period_item_def replace_tzinfo_def)
  have ditem: "annotated tz (dt ditem) (dt (normalize_dated_item tz ditem)) \<and>
     demand_value (normalize_dated_item tz ditem) = demand_value ditem" for tz ditem
    by (simp add: annotated_def same_wall_clock_def normalize_dated_item_def replace_tzinfo_def)
  have items: "list_all2
           (\<lambda>r n. annotated tz (start r) (start n) \<and> annotated tz (end' r) (end' n) \<and>
                  period_value n = period_value r)
           xs (map (normalize_period_item tz) xs)" for tz xs
    using item by (simp add: list_all2_map2 list_all2_same)
  have ditems: "list_all2
           (\<lambda>r n. annotated tz (dt r) (dt n) \<and> demand_value n = demand_value r)
           xs (map (normalize_dated_item tz) xs)" for tz xs
    using ditem by (simp add: list_all2_map2 list_all2_same)
  have cons: "\<exists>raw rec.
         get_historical_consumption a (today env - HISTORICAL_PERIOD_LENGHT env) (today env)
           = Inr raw \<and>
         fragment = [DATA_ATTR_HISTORICAL_CONSUMPTION \<mapsto> PyHistoricalConsumption rec] \<and>
         list_all2
           (\<lambda>r n. annotated (LOCAL_TZ env) (start r) (start n) \<and>
                  annotated (LOCAL_TZ env) (end' r) (end' n) \<and>
                  period_value n = period_value r)
           (periods raw) (periods rec)"
    if "get_historical_consumption_data env a = (evs, Inr fragment)" for evs fragment
  proof (cases "get_historical_consumption a (today env - HISTORICAL_PERIOD_LENGHT env) (today env)")
    case (Inl e)
    with that show ?thesis by (simp add: get_historical_consumption_data_def Let_def)
  next
    case (Inr raw)
    let ?rec = "raw\<lparr>periods := map (normalize_period_item (LOCAL_TZ env)) (periods raw)\<rparr>"
    from that Inr have
      "fragment = [DATA_ATTR_HISTORICAL_CONSUMPTION \<mapsto> PyHistoricalConsumption ?rec]"
      by (simp add: get_historical_consumption_data_def Let_def)
    moreover have "list_all2
           (\<lambda>r n. annotated (LOCAL_TZ env) (start r) (start n) \<and>
                  annotated (LOCAL_TZ env) (end' r) (end' n) \<and>
                  period_value n = period_value r)
           (periods raw) (periods ?rec)"
      using items [of "LOCAL_TZ env" "periods raw"] by simp
    ultimately show ?thesis using Inr by blast
  qed
  have dem: "\<exists>raw rec.
         get_historical_power_demand a = Inr raw \<and>
         fragment = [DATA_ATTR_HISTORICAL_POWER_DEMAND \<mapsto> PyHistoricalPowerDemand rec] \<and>
         list_all2
           (\<lambda>r n. annotated (LOCAL_TZ env) (dt r) (dt n) \<and> demand_value n = demand_value r)
           (demands raw) (demands rec)"
    if "get_historical_power_demand_data env a = (evs, Inr fragment)" for evs fragment
  proof (cases "get_historical_power_demand a")
    case (Inl e)
    with that show ?thesis by (simp add: get_historical_power_demand_data_def)
  next
    case (Inr raw)
    let ?rec = "raw\<lparr>demands := map (normalize_dated_item (LOCAL_TZ env)) (demands raw)\<rparr>"
    from that Inr have
      "fragment = [DATA_ATTR_HISTORICAL_POWER_DEMAND \<mapsto> PyHistoricalPowerDemand ?rec]"
      by (simp add: get_historical_power_demand_data_def)
    moreover have "list_all2
           (\<lambda>r n. annotated (LOCAL_TZ env) (dt r) (dt n) \<and> demand_value n = demand_value r)
           (demands raw) (demands ?rec)"
      using ditems [of "LOCAL_TZ env" "demands raw"] by simp
    ultimately show ?thesis using Inr by blast
  qed
  from item [of tz item] ditem [of tz ditem] cons dem show ?thesis by blast
qed


text \<open>
  The naive \<^verbatim>\<open>2024-01-01T00:00:00\<close> with the zone \<^verbatim>\<open>Europe/Madrid\<close> stays at midnight.
\<close>

theorem normalization_annotates_witness:
  "get_historical_consumption_data sample_env sample_api =
     ([ApiCall (GetHistoricalConsumption 993 1000)],
      Inr [DATA_ATTR_HISTORICAL_CONSUMPTION \<mapsto>
             PyHistoricalConsumption
               \<lparr>periods =
                  [\<lparr>start = \<lparr>year = 2024, month = 1, day = 1, hour = 0, minute = 0,
                              second = 0, microsecond = 0,
                              tzinfo = Some (ZoneInfo ''Europe/Madrid'')\<rparr>,
                    end' = \<lparr>year = 2024, month = 1, day = 1, hour = 1, minute = 0,
                              second = 0, microsecond = 0,
                              tzinfo = Some (ZoneInfo ''Europe/Madrid'')\<rparr>,
                    period_value = 3\<rparr>],
                accumulated = 3, accumulated_co2 = 1\<rparr>]) \<and>
   get_historical_power_demand_data sample_env demand_api =
     ([ApiCall GetHistoricalPowerDemand],
      Inr [DATA_ATTR_HISTORICAL_POWER_DEMAND \<mapsto>
             PyHistoricalPowerDemand
               \<lparr>demands =
                  [\<lparr>dt = \<lparr>year = 2024, month = 1, day = 1, hour = 0, minute = 0,
                           second = 0, microsecond = 0,
                           tzinfo = Some (ZoneInfo ''Europe/Madrid'')\<rparr>,
                    demand_value = 4\<rparr>]\<rparr>]) \<and>
   annotated (ZoneInfo ''Europe/Madrid'') sample_datetime
     \<lparr>year = 2024, month = 1, day = 1, hour = 0, minute = 0, second = 0, microsecond = 0,
      tzinfo = Some (ZoneInfo ''Europe/Madrid'')\<rparr>"
  using normalization_annotates [of "ZoneInfo ''Europe/Madrid''" sample_period
      "\<lparr>dt = sample_datetime, demand_value = 4\<rparr>" sample_env sample_api]
    normalization_annotates [of "ZoneInfo ''Europe/Madrid''" sample_period
      "\<lparr>dt = sample_datetime, demand_value = 4\<rparr>" sample_env demand_api]
  by (simp add: tick_defs sample_defs demand_api_def annotated_def same_wall_clock_def)

section \<open>The data sets required by the sensors\<close>

lemma bit_fold_inner:
  "bit (fold (\<lambda>s_ds ds. ds OR DataSetType_value s_ds) xs acc) n \<longleftrightarrow>
     bit acc n \<or> (\<exists>d\<in>set xs. bit (DataSetType_value d) n)"
  by (induction xs arbitrary: acc) (auto simp: bit_or_iff)

lemma bit_fold_outer:
  "bit (fold (\<lambda>sensor ds. fold (\<lambda>s_ds ds. ds OR DataSetType_value s_ds)
                 (I_DE_DATA_SETS sensor) ds) ss acc) n \<longleftrightarrow>
     bit acc n \<or> (\<exists>s\<in>set ss. \<exists>d\<in>set (I_DE_DATA_SETS s). bit (DataSetType_value d) n)"
  by (induction ss arbitrary: acc) (auto simp: bit_fold_inner)

lemma bit_required_datasets:
  "bit (required_datasets ss) n \<longleftrightarrow>
     (\<exists>s\<in>set ss. \<exists>d\<in>set (I_DE_DATA_SETS s). bit (DataSetType_value d) n)"
  by (simp add: required_datasets_def bit_fold_outer)

lemma bit_foldr_union:
  "bit (foldr (\<lambda>d u. DataSetType_value d OR u) xs 0) n \<longleftrightarrow>
     (\<exists>d\<in>set xs. bit (DataSetType_value d) n)"
  by (induction xs) (auto simp: bit_or_iff)

lemma bit_declared_union:
  "bit (declared_union ss) n \<longleftrightarrow>
     (\<exists>s\<in>set ss. \<exists>d\<in>set (I_DE_DATA_SETS s). bit (DataSetType_value d) n)"
  by (auto simp: declared_union_def bit_foldr_union)

lemma required_is_declared_union: "required_datasets ss = declared_union ss"
  by (rule bit_eqI) (simp add: bit_required_datasets bit_declared_union)

lemma requested_zero: "requested 0 = []"
  by (simp add: requested_def requested_from_def DataSetType_iter_def)

text \<open>
  C6.  The bitmask requested by \<^verbatim>\<open>_async_update_data\<close> is the bitwise union of the data
  sets declared by the registered sensors: a bit is set exactly when some sensor declares
  a data set with that bit, and the raw update is called with this union.  With no sensor
  registered the bitmask is empty, no data set is enumerated, the raw update makes no
  call at all (no barrier is consulted, no fetch routine invoked), its partial result is
  empty and the merged result is the data as it was.
\<close>

theorem requested_mask_is_declared_union:
  "required_datasets sensor_list = declared_union sensor_list \<and>
   (\<forall>n. bit (required_datasets sensor_list) n \<longleftrightarrow>
      (\<exists>s\<in>set sensor_list. \<exists>d\<in>set (I_DE_DATA_SETS s). bit (DataSetType_value d) n)) \<and>
   async_update_data env slf =
     (case async_update_data_raw env slf (declared_union (sensors slf)) None of
        (slf', evs, Inl e) \<Rightarrow>
          (slf', Log (RequestUpdate (declared_union (sensors slf))) # evs, Inl e)
      | (slf', evs, Inr updated_data) \<Rightarrow>
          (slf', Log (RequestUpdate (declared_union (sensors slf))) # evs,
           Inr (data slf' ++ updated_data))) \<and>
   (sensors slf = [] \<longrightarrow>
      required_datasets (sensors slf) = DataSetType_value NONE \<and>
      requested (required_datasets (sensors slf)) = [] \<and>
      async_update_data_raw env slf (required_datasets (sensors slf)) None =
        (slf, [], Inr Map.empty) \<and>
      async_update_data env slf = (slf, [Log (RequestUpdate 0)], Inr (data slf)))"
proof -
  have A: "async_update_data env slf =
     (case async_update_data_raw env slf (declared_union (sensors slf)) None of
        (slf', evs, Inl e) \<Rightarrow>
          (slf', Log (RequestUpdate (declared_union (sensors slf))) # evs, Inl e)
      | (slf', evs, Inr updated_data) \<Rightarrow>
          (slf', Log (RequestUpdate (declared_union (sensors slf))) # evs,
           Inr (data slf' ++ updated_data)))"
    by (simp add: async_update_data_def Let_def required_is_declared_union)
  have raw0: "async_update_data_raw env slf 0 None = (slf, [], Inr Map.empty)"
    by (simp add: async_update_data_raw_def Let_def requested_zero now_is_utc_None)
  have B: "required_datasets (sensors slf) = DataSetType_value NONE \<and>
      requested (required_datasets (sensors slf)) = [] \<and>
      async_update_data_raw env slf (required_datasets (sensors slf)) None =
        (slf, [], Inr Map.empty) \<and>
      async_update_data env slf = (slf, [Log (RequestUpdate 0)], Inr (data slf))"
    if "sensors slf = []"
    using that raw0
    by (simp add: required_datasets_def requested_zero async_update_data_def)
  have C: "required_datasets sensor_list = declared_union sensor_list"
    by (rule required_is_declared_union)
  have D: "\<forall>n. bit (required_datasets sensor_list) n \<longleftrightarrow>
      (\<exists>s\<in>set sensor_list. \<exists>d\<in>set (I_DE_DATA_SETS s). bit (DataSetType_value d) n)"
    by (simp add: bit_required_datasets)
  from B have B': "sensors slf = [] \<longrightarrow>
      required_datasets (sensors slf) = DataSetType_value NONE \<and>
      requested (required_datasets (sensors slf)) = [] \<and>
      async_update_data_raw env slf (required_datasets (sensors slf)) None =
        (slf, [], Inr Map.empty) \<and>
      async_update_data env slf = (slf, [Log (RequestUpdate 0)], Inr (data slf))"
    by (rule impI)
  from C D A B' show ?thesis by (intro conjI)
qed

text \<open>No sensor; then two sensors, for the measure and for the power demand.\<close>

theorem requested_mask_is_declared_union_witness:
  "sensors sample_coordinator = [] \<and>
   async_update_data sample_env sample_coordinator =
     (sample_coordinator, [Log (RequestUpdate 0)], Inr (data sample_coordinator)) \<and>
   async_update_data_raw sample_env sample_coordinator 0 None =
     (sample_coordinator, [], Inr Map.empty) \<and>
   bit (DataSetType_value HISTORICAL_POWER_DEMAND) 3 \<and>
   bit (required_datasets
          [\<lparr>entity_name = ''Accumulated Consumption'', I_DE_DATA_SETS = [MEASURE]\<rparr>,
           \<lparr>entity_name = ''Power Demand'', I_DE_DATA_SETS = [HISTORICAL_POWER_DEMAND]\<rparr>]) 3 \<and>
   required_datasets
          [\<lparr>entity_name = ''Accumulated Consumption'', I_DE_DATA_SETS = [MEASURE]\<rparr>,
           \<lparr>entity_name = ''Power Demand'', I_DE_DATA_SETS = [HISTORICAL_POWER_DEMAND]\<rparr>] = 9"
  using
    requested_mask_is_declared_union [of
      "[\<lparr>entity_name = ''Accumulated Consumption'', I_DE_DATA_SETS = [MEASURE]\<rparr>,
        \<lparr>entity_name = ''Power Demand'', I_DE_DATA_SETS = [HISTORICAL_POWER_DEMAND]\<rparr>]"
      sample_env sample_coordinator]
  by (simp add: sample_defs declared_union_def required_datasets_def)

section \<open>The calls of a tick, data set by data set\<close>

lemma process_dataset_step_events:
  "events (fst (process_dataset env d s)) = events s @ step_events env (self s) d"
  by (simp add: step_events_def process_dataset_def emit_def Let_def
      split: option.splits sum.splits prod.splits)

lemma step_events_frame:
  assumes "api slf' = api slf" "barriers slf' d = barriers slf d"
  shows "step_events env slf' d = step_events env slf d"
  using assms
  by (simp add: step_events_def process_dataset_def emit_def Let_def
      split: option.splits sum.splits prod.splits)

lemma step_events_about: "\<forall>ev\<in>set (step_events env slf d). event_dataset ev = Some d"
proof -
  obtain s' r where
    step: "process_dataset env d \<lparr>self = slf, local_data = Map.empty, events = []\<rparr> = (s', r)"
    by (cases "process_dataset env d \<lparr>self = slf, local_data = Map.empty, events = []\<rparr>")
  from process_dataset_events [OF step] step show ?thesis
    by (auto simp: step_events_def)
qed

lemma update_loop_step_events:
  assumes "update_loop env ds s = (s', r)" "distinct ds"
  shows "\<exists>k\<le>length ds. events s' = events s @ concat (map (step_events env (self s)) (take k ds))
           \<and> (r = None \<longrightarrow> k = length ds)"
  using assms
proof (induction ds arbitrary: s)
  case Nil
  then show ?case by simp
next
  case (Cons d ds)
  have d_fresh: "d \<notin> set ds" and dist: "distinct ds" using Cons.prems(2) by auto
  from Cons.prems(1) show ?case
  proof (cases rule: update_loop_Cons_cases)
    case (continue s1)
    from process_dataset_step_events [of env d s] continue(1)
    have ev1: "events s1 = events s @ step_events env (self s) d" by simp
    from Cons.IH [OF continue(2) dist] obtain k where
      k: "k \<le> length ds"
        "events s' = events s1 @ concat (map (step_events env (self s1)) (take k ds))"
        "r = None \<longrightarrow> k = length ds"
      by blast
    have "map (step_events env (self s1)) (take k ds) = map (step_events env (self s)) (take k ds)"
    proof (rule map_cong [OF refl])
      fix d' assume "d' \<in> set (take k ds)"
      then have "d' \<in> set ds" by (rule in_set_takeD)
      with d_fresh have "d' \<noteq> d" by auto
      with process_dataset_frame [OF continue(1)]
      show "step_events env (self s1) d' = step_events env (self s) d'"
        by (intro step_events_frame) auto
    qed
    with k ev1 have "events s' =
        events s @ concat (map (step_events env (self s)) (take (Suc k) (d # ds)))"
      by simp
    with k show ?thesis by (intro exI [of _ "Suc k"]) simp
  next
    case (raised e)
    from process_dataset_step_events [of env d s] raised(1)
    have "events s' = events s @ concat (map (step_events env (self s)) (take 1 (d # ds)))"
      by simp
    with raised show ?thesis by (intro exI [of _ 1]) simp
  qed
qed

text \<open>
  Whenever a tick made a call about a data set, it made exactly the calls of that data
  set's pass through the loop body, as the coordinator at the start of the tick
  determines them.
\<close>

lemma tick_events_of:
  assumes "async_update_data_raw env slf datasets now = (slf', evs, r)"
    and "ev \<in> set evs" "event_dataset ev = Some d"
  shows "ev \<in> set (step_events env slf d)" "set (step_events env slf d) \<subseteq> set evs"
    "d \<in> set (requested datasets)"
proof -
  from assms(1) have "ev \<in> set (step_events env slf d) \<and> set (step_events env slf d) \<subseteq> set evs
    \<and> d \<in> set (requested datasets)"
  proof (cases rule: async_update_data_raw_cases)
    case not_utc
    with assms(2) show ?thesis by simp
  next
    case (looped s' e)
    from update_loop_step_events [OF looped(2) distinct_requested] looped(4) obtain k where
      evs: "evs = concat (map (step_events env slf) (take k (requested datasets)))"
      by auto
    with assms(2) obtain d' where d': "d' \<in> set (take k (requested datasets))"
      "ev \<in> set (step_events env slf d')" by auto
    with step_events_about [of env slf d'] assms(3) have "d' = d" by auto
    with d' evs in_set_takeD [OF d'(1)] show ?thesis by auto
  qed
  then show "ev \<in> set (step_events env slf d)" "set (step_events env slf d) \<subseteq> set evs"
    "d \<in> set (requested datasets)" by blast+
qed

lemma tick_events_complete:
  assumes "async_update_data_raw env slf datasets now = (slf', evs, Inr m)"
    and "d \<in> set (requested datasets)"
  shows "set (step_events env slf d) \<subseteq> set evs"
  using assms(1)
proof (cases rule: async_update_data_raw_cases)
  case (looped s' e)
  then have "e = None" by (cases e) auto
  with update_loop_step_events [OF looped(2) distinct_requested] looped(4)
  have "evs = concat (map (step_events env slf) (requested datasets))" by auto
  with assms(2) show ?thesis by auto
qed simp

lemma step_events_no_barrier:
  "barriers slf d = None \<Longrightarrow> step_events env slf d = [Log (UpdateIgnoredNoBarrier d)]"
  by (simp add: step_events_def process_dataset_def emit_def)

lemma handlers_not_allowed:
  "barrier_handler d e \<noteq> Some (UpdateAllowed d')" "fetch_handler d e \<noteq> Some (UpdateAllowed d')"
  by (cases e; simp)+

lemma step_events_allowed:
  "Log (UpdateAllowed d) \<in> set (step_events env slf d) \<longleftrightarrow> check_returns env slf d"
proof -
  obtain s' r where
    step: "process_dataset env d \<lparr>self = slf, local_data = Map.empty, events = []\<rparr> = (s', r)"
    by (cases "process_dataset env d \<lparr>self = slf, local_data = Map.empty, events = []\<rparr>")
  then have ev: "step_events env slf d = events s'" by (simp add: step_events_def)
  from step show ?thesis
  proof (cases rule: process_dataset_cases)
    case (check_caught b e msg)
    with handlers_not_allowed(1) [of d e d] show ?thesis
      by (auto simp: ev emit_def check_returns_def)
  next
    case (fetch_caught b evs e msg)
    with dispatch_requests [OF fetch_caught(3)] show ?thesis
      by (auto simp: ev emit_def check_returns_def)
  next
    case (fetch_raised b evs e)
    with dispatch_requests [OF fetch_raised(3)] show ?thesis
      by (auto simp: ev emit_def check_returns_def)
  next
    case (succeeded b evs fragment)
    with dispatch_requests [OF succeeded(3)] show ?thesis
      by (auto simp: ev emit_def check_returns_def)
  qed (auto simp: ev emit_def check_returns_def)
qed

lemma step_events_check:
  "BarrierCheck d \<in> set (step_events env slf d) \<longleftrightarrow> barriers slf d \<noteq> None"
  by (auto simp: step_events_def process_dataset_def emit_def Let_def
      split: option.splits sum.splits prod.splits)

lemma step_events_fetch:
  "check_returns env slf d \<Longrightarrow> dispatch env (api slf) d = Some (fevs, res) \<Longrightarrow>
     Fetch d \<in> set (step_events env slf d) \<and> set fevs \<subseteq> set (step_events env slf d)"
  by (auto simp: step_events_def process_dataset_def emit_def Let_def check_returns_def
      split: option.splits sum.splits prod.splits)

lemma step_events_fetch_iff:
  "Fetch d \<in> set (step_events env slf d) \<longleftrightarrow>
     check_returns env slf d \<and> dispatch env (api slf) d \<noteq> None"
  by (auto simp: step_events_def process_dataset_def emit_def Let_def check_returns_def
      dest!: dispatch_requests
      split: option.splits sum.splits prod.splits)

section \<open>Data sets without a barrier\<close>

text \<open>
  C4.  A data set for which \<^verbatim>\<open>barriers\<close> holds no barrier is never fetched, whatever the
  requested bitmask: the tick checks no barrier for it, invokes no fetch routine, sends
  no request of that data set and records no success; the only call about it is the
  message that the update is ignored, which is logged when the data set is requested and
  the tick returns.  Its keys are absent from the result, and it still has no barrier
  after the tick, so the same holds for the ticks that follow.
\<close>

theorem no_barrier_never_fetched:
  assumes "barriers slf d = None"
    and "async_update_data_raw env slf datasets now = (slf', evs, r)"
  shows "BarrierCheck d \<notin> set evs \<and> Fetch d \<notin> set evs \<and> BarrierSuccess d \<notin> set evs \<and>
     (\<forall>req. ApiCall req \<in> set evs \<longrightarrow> request_dataset req \<noteq> d) \<and>
     (\<forall>ev\<in>set evs. event_dataset ev = Some d \<longrightarrow> ev = Log (UpdateIgnoredNoBarrier d)) \<and>
     barriers slf' d = None \<and>
     (\<forall>m. r = Inr m \<longrightarrow>
        dom m \<inter> fragment_keys d = {} \<and>
        (d \<in> set (requested datasets) \<longrightarrow> Log (UpdateIgnoredNoBarrier d) \<in> set evs))"
proof -
  note t = assms(2)
  have only: "ev = Log (UpdateIgnoredNoBarrier d)"
    if "ev \<in> set evs" "event_dataset ev = Some d" for ev
    using tick_events_of(1) [OF t that] step_events_no_barrier [OF assms(1), of env] by simp
  have A: "BarrierCheck d \<notin> set evs" "Fetch d \<notin> set evs" "BarrierSuccess d \<notin> set evs"
    using only by fastforce+
  have B: "request_dataset req \<noteq> d" if "ApiCall req \<in> set evs" for req
    using only [OF that] by auto
  have C: "barriers slf' d = None"
    using tick_summary(6) [OF t, of d] A(3) assms(1) by simp
  have D: "dom m \<inter> fragment_keys d = {}" if "r = Inr m" for m
    using tick_no_keys [of env slf datasets now slf' evs m d] t that A(3) by simp
  have E: "Log (UpdateIgnoredNoBarrier d) \<in> set evs"
    if "r = Inr m" "d \<in> set (requested datasets)" for m
    using tick_events_complete [of env slf datasets now slf' evs m d] t that
      step_events_no_barrier [OF assms(1), of env] by simp
  from A B only C D E show ?thesis by blast
qed

text \<open>
  The historical consumption has no barrier in the sample installation: with every data
  set requested, it is the only one that is neither checked nor fetched.
\<close>

theorem no_barrier_never_fetched_witness:
  "barriers sample_coordinator HISTORICAL_CONSUMPTION = None \<and>
   async_update_data_raw sample_env sample_coordinator 15 None =
     (sample_coordinator
        \<lparr>barriers := [MEASURE \<mapsto> False, HISTORICAL_GENERATION \<mapsto> True,
                      HISTORICAL_POWER_DEMAND \<mapsto> True]\<rparr>,
      [BarrierCheck MEASURE, Log (UpdateAllowed MEASURE), Fetch MEASURE,
       ApiCall GetMeasure, BarrierSuccess MEASURE, Log (UpdateSuccessful MEASURE),
       Log (UpdateIgnoredNoBarrier HISTORICAL_CONSUMPTION),
       BarrierCheck HISTORICAL_GENERATION, Log (UpdateAllowed HISTORICAL_GENERATION),
       Fetch HISTORICAL_GENERATION, ApiCall (GetHistoricalGeneration 993 1000),
       Log (UpdateErrorFixme HISTORICAL_GENERATION NotImplementedError),
       BarrierCheck HISTORICAL_POWER_DEMAND, Log (UpdateAllowed HISTORICAL_POWER_DEMAND),
       Fetch HISTORICAL_POWER_DEMAND, ApiCall GetHistoricalPowerDemand,
       Log (UpdateErrorRequestFailed HISTORICAL_POWER_DEMAND ''Too Many Requests'' 429)],
      Inr [DATA_ATTR_MEASURE_ACCUMULATED \<mapsto> PyInt 42, DATA_ATTR_MEASURE_INSTANT \<mapsto> PyFloat 5]) \<and>
   HISTORICAL_CONSUMPTION \<in> set (requested 15)"
proof -
  have b: "barriers sample_coordinator HISTORICAL_CONSUMPTION = None"
    by (simp add: sample_defs)
  have t: "async_update_data_raw sample_env sample_coordinator 15 None =
     (sample_coordinator
        \<lparr>barriers := [MEASURE \<mapsto> False, HISTORICAL_GENERATION \<mapsto> True,
                      HISTORICAL_POWER_DEMAND \<mapsto> True]\<rparr>,
      [BarrierCheck MEASURE, Log (UpdateAllowed MEASURE), Fetch MEASURE,
       ApiCall GetMeasure, BarrierSuccess MEASURE, Log (UpdateSuccessful MEASURE),
       Log (UpdateIgnoredNoBarrier HISTORICAL_CONSUMPTION),
       BarrierCheck HISTORICAL_GENERATION, Log (UpdateAllowed HISTORICAL_GENERATION),
       Fetch HISTORICAL_GENERATION, ApiCall (GetHistoricalGeneration 993 1000),
       Log (UpdateErrorFixme HISTORICAL_GENERATION NotImplementedError),
       BarrierCheck HISTORICAL_POWER_DEMAND, Log (UpdateAllowed HISTORICAL_POWER_DEMAND),
       Fetch HISTORICAL_POWER_DEMAND, ApiCall GetHistoricalPowerDemand,
       Log (UpdateErrorRequestFailed HISTORICAL_POWER_DEMAND ''Too Many Requests'' 429)],
      Inr [DATA_ATTR_MEASURE_ACCUMULATED \<mapsto> PyInt 42, DATA_ATTR_MEASURE_INSTANT \<mapsto> PyFloat 5])"
    by (simp add: tick_defs sample_defs fun_upd_twist)
  from no_barrier_never_fetched [OF b t] b t show ?thesis
    by (simp add: requested_iff)
qed


section \<open>When a success is recorded\<close>

text \<open>
  C5.  In a tick, \<^verbatim>\<open>success()\<close> is called on the barrier of a data set exactly when its
  \<^verbatim>\<open>check()\<close> was called and returned without raising and its fetch routine returned
  without raising.  A check is called only for a requested data set that has a barrier,
  and for each of them when the tick returns.  When the success is recorded the fetch
  routine was invoked and the barrier is the old one after \<^verbatim>\<open>success()\<close>; for a data set
  that is skipped, denied or whose fetch fails the barrier is unchanged.
\<close>

theorem success_recorded_iff_check_and_fetch_return:
  assumes "async_update_data_raw env slf datasets now = (slf', evs, r)"
  shows "(BarrierSuccess d \<in> set evs \<longleftrightarrow>
            BarrierCheck d \<in> set evs \<and> check_returns env slf d \<and>
            fetch_returns env (api slf) d) \<and>
         (BarrierCheck d \<in> set evs \<longrightarrow>
            d \<in> set (requested datasets) \<and> barriers slf d \<noteq> None) \<and>
         ((\<exists>m. r = Inr m) \<and> d \<in> set (requested datasets) \<and> barriers slf d \<noteq> None \<longrightarrow>
            BarrierCheck d \<in> set evs) \<and>
         (BarrierSuccess d \<in> set evs \<longrightarrow>
            Fetch d \<in> set evs \<and>
            barriers slf' d = map_option (success env) (barriers slf d)) \<and>
         (BarrierSuccess d \<notin> set evs \<longrightarrow> barriers slf' d = barriers slf d)"
proof -
  note t = assms
  have A: "BarrierSuccess d \<in> set evs \<longleftrightarrow>
            BarrierCheck d \<in> set evs \<and> check_returns env slf d \<and>
            fetch_returns env (api slf) d"
    by (rule tick_summary(5) [OF t])
  have B: "d \<in> set (requested datasets) \<and> barriers slf d \<noteq> None"
    if "BarrierCheck d \<in> set evs"
    using tick_events_of(1,3) [OF t that, of d] step_events_check [of d env slf] by simp
  have C: "BarrierCheck d \<in> set evs"
    if "r = Inr m" "d \<in> set (requested datasets)" "barriers slf d \<noteq> None" for m
    using tick_summary(8) [OF t that(1,2)] that(3) by simp
  have D: "Fetch d \<in> set evs" if "BarrierSuccess d \<in> set evs"
  proof -
    from that A have cr: "check_returns env slf d" and fr: "fetch_returns env (api slf) d"
      by auto
    from fr have "dispatch env (api slf) d \<noteq> None"
      by (auto simp: fetch_returns_def split: option.splits)
    with cr have "Fetch d \<in> set (step_events env slf d)"
      by (simp add: step_events_fetch_iff)
    with tick_events_of(2) [OF t that, of d] show ?thesis by auto
  qed
  have E: "barriers slf' d =
       (if BarrierSuccess d \<in> set evs then map_option (success env) (barriers slf d)
        else barriers slf d)"
    by (rule tick_summary(6) [OF t])
  from A B C D E show ?thesis by auto
qed

text \<open>
  In the sample installation the measure succeeds, the power demand is allowed but its
  request fails, and the historical consumption has no barrier.
\<close>

theorem success_recorded_iff_check_and_fetch_return_witness:
  "async_update_data_raw sample_env sample_coordinator 15 None =
     (sample_coordinator
        \<lparr>barriers := [MEASURE \<mapsto> False, HISTORICAL_GENERATION \<mapsto> True,
                      HISTORICAL_POWER_DEMAND \<mapsto> True]\<rparr>,
      [BarrierCheck MEASURE, Log (UpdateAllowed MEASURE), Fetch MEASURE,
       ApiCall GetMeasure, BarrierSuccess MEASURE, Log (UpdateSuccessful MEASURE),
       Log (UpdateIgnoredNoBarrier HISTORICAL_CONSUMPTION),
       BarrierCheck HISTORICAL_GENERATION, Log (UpdateAllowed HISTORICAL_GENERATION),
       Fetch HISTORICAL_GENERATION, ApiCall (GetHistoricalGeneration 993 1000),
       Log (UpdateErrorFixme HISTORICAL_GENERATION NotImplementedError),
       BarrierCheck HISTORICAL_POWER_DEMAND, Log (UpdateAllowed HISTORICAL_POWER_DEMAND),
       Fetch HISTORICAL_POWER_DEMAND, ApiCall GetHistoricalPowerDemand,
       Log (UpdateErrorRequestFailed HISTORICAL_POWER_DEMAND ''Too Many Requests'' 429)],
      Inr [DATA_ATTR_MEASURE_ACCUMULATED \<mapsto> PyInt 42, DATA_ATTR_MEASURE_INSTANT \<mapsto> PyFloat 5]) \<and>
   check_returns sample_env sample_coordinator MEASURE \<and>
   fetch_returns sample_env sample_api MEASURE \<and>
   check_returns sample_env sample_coordinator HISTORICAL_POWER_DEMAND \<and>
   \<not> fetch_returns sample_env sample_api HISTORICAL_POWER_DEMAND \<and>
   \<not> check_returns sample_env sample_coordinator HISTORICAL_CONSUMPTION \<and>
   MEASURE \<in> set (requested 15) \<and>
   barriers sample_coordinator MEASURE \<noteq> None"
proof -
  have t: "async_update_data_raw sample_env sample_coordinator 15 None =
     (sample_coordinator
        \<lparr>barriers := [MEASURE \<mapsto> False, HISTORICAL_GENERATION \<mapsto> True,
                      HISTORICAL_POWER_DEMAND \<mapsto> True]\<rparr>,
      [BarrierCheck MEASURE, Log (UpdateAllowed MEASURE), Fetch MEASURE,
       ApiCall GetMeasure, BarrierSuccess MEASURE, Log (UpdateSuccessful MEASURE),
       Log (UpdateIgnoredNoBarrier HISTORICAL_CONSUMPTION),
       BarrierCheck HISTORICAL_GENERATION, Log (UpdateAllowed HISTORICAL_GENERATION),
       Fetch HISTORICAL_GENERATION, ApiCall (GetHistoricalGeneration 993 1000),
       Log (UpdateErrorFixme HISTORICAL_GENERATION NotImplementedError),
       BarrierCheck HISTORICAL_POWER_DEMAND, Log (UpdateAllowed HISTORICAL_POWER_DEMAND),
       Fetch HISTORICAL_POWER_DEMAND, ApiCall GetHistoricalPowerDemand,
       Log (UpdateErrorRequestFailed HISTORICAL_POWER_DEMAND ''Too Many Requests'' 429)],
      Inr [DATA_ATTR_MEASURE_ACCUMULATED \<mapsto> PyInt 42, DATA_ATTR_MEASURE_INSTANT \<mapsto> PyFloat 5])"
    by (simp add: tick_defs sample_defs fun_upd_twist)
  from success_recorded_iff_check_and_fetch_return [OF t, of MEASURE]
    success_recorded_iff_check_and_fetch_return [OF t, of HISTORICAL_POWER_DEMAND]
    success_recorded_iff_check_and_fetch_return [OF t, of HISTORICAL_CONSUMPTION]
    t
  show ?thesis
    by (simp add: requested_iff check_returns_def fetch_returns_def sample_defs
        get_direct_reading_data_def get_historical_power_demand_data_def)
qed

section \<open>Merging into the snapshot\<close>

text \<open>
  C2.  The merge is a right-biased shallow merge.  For \<^verbatim>\<open>update_internal_data\<close> and for
  the dictionary \<^verbatim>\<open>_async_update_data\<close> returns, a key of the partial result holds the new
  value and every other key holds exactly the value \<^verbatim>\<open>self.data\<close> had before.  In
  particular the keys of a data set that was not requested, has no barrier, was denied
  or whose fetch failed are absent from the partial result and keep their value.
\<close>

theorem merge_is_right_biased:
  "(\<forall>k. data (update_internal_data slf d) k =
          (case d k of Some v \<Rightarrow> Some v | None \<Rightarrow> data slf k)) \<and>
   (\<forall>slf' evs merged. async_update_data env slf = (slf', evs, Inr merged) \<longrightarrow>
      (\<exists>updated.
         async_update_data_raw env slf (required_datasets (sensors slf)) None =
           (slf', tl evs, Inr updated) \<and>
         data slf' = data slf \<and>
         (\<forall>k. merged k = (case updated k of Some v \<Rightarrow> Some v | None \<Rightarrow> data slf k)) \<and>
         (\<forall>ds. \<not> (ds \<in> set (requested (required_datasets (sensors slf))) \<and>
                   check_returns env slf ds \<and> fetch_returns env (api slf) ds) \<longrightarrow>
               (\<forall>k\<in>fragment_keys ds. updated k = None \<and> merged k = data slf k))))"
proof -
  have A: "data (update_internal_data slf d) k =
          (case d k of Some v \<Rightarrow> Some v | None \<Rightarrow> data slf k)" for k
    by (simp add: update_internal_data_def map_add_def split: option.splits)
  have B: "\<exists>updated.
         async_update_data_raw env slf (required_datasets (sensors slf)) None =
           (slf', tl evs, Inr updated) \<and>
         data slf' = data slf \<and>
         (\<forall>k. merged k = (case updated k of Some v \<Rightarrow> Some v | None \<Rightarrow> data slf k)) \<and>
         (\<forall>ds. \<not> (ds \<in> set (requested (required_datasets (sensors slf))) \<and>
                   check_returns env slf ds \<and> fetch_returns env (api slf) ds) \<longrightarrow>
               (\<forall>k\<in>fragment_keys ds. updated k = None \<and> merged k = data slf k))"
    if a: "async_update_data env slf = (slf', evs, Inr merged)" for slf' evs merged
  proof -
    let ?mask = "required_datasets (sensors slf)"
    obtain slf1 evs1 r1 where
      t: "async_update_data_raw env slf ?mask None = (slf1, evs1, r1)"
      by (cases "async_update_data_raw env slf ?mask None")
    from a t obtain updated where r1: "r1 = Inr updated"
      by (cases r1) (auto simp: async_update_data_def Let_def)
    from a t r1 have eqs: "slf' = slf1" "evs = Log (RequestUpdate ?mask) # evs1"
      "merged = data slf1 ++ updated"
      by (auto simp: async_update_data_def Let_def)
    have dat: "data slf1 = data slf" by (rule tick_summary(2) [OF t])
    have m: "merged k = (case updated k of Some v \<Rightarrow> Some v | None \<Rightarrow> data slf k)" for k
      using eqs(3) dat by (simp add: map_add_def split: option.splits)
    have frame: "updated k = None \<and> merged k = data slf k"
      if no: "\<not> (ds \<in> set (requested ?mask) \<and> check_returns env slf ds \<and>
                 fetch_returns env (api slf) ds)"
        and k: "k \<in> fragment_keys ds" for ds k
    proof -
      have "BarrierSuccess ds \<notin> set evs1"
      proof
        assume suc: "BarrierSuccess ds \<in> set evs1"
        from tick_events_of(3) [OF t suc, of ds] tick_summary(5) [OF t, of ds] suc no
        show False by simp
      qed
      with tick_no_keys [of env slf ?mask None slf1 evs1 updated ds] t r1
      have "dom updated \<inter> fragment_keys ds = {}" by simp
      with k have "updated k = None" by auto
      with m [of k] show ?thesis by simp
    qed
    from t r1 eqs dat m frame show ?thesis by auto
  qed
  from A B show ?thesis by blast
qed


text \<open>
  Two sensors ask for the measure and the power demand.  The measure is overwritten; the
  power demand, whose request fails, and the slots nobody asked for keep their values.
\<close>

theorem merge_is_right_biased_witness:
  "(case snd (snd (async_update_data sample_env sensed_coordinator)) of
      Inl e \<Rightarrow> False
    | Inr merged \<Rightarrow>
        data sensed_coordinator DATA_ATTR_MEASURE_ACCUMULATED = Some (PyInt 41) \<and>
        merged DATA_ATTR_MEASURE_ACCUMULATED = Some (PyInt 42) \<and>
        merged DATA_ATTR_MEASURE_INSTANT = Some (PyFloat 5) \<and>
        merged DATA_ATTR_HISTORICAL_POWER_DEMAND =
          Some (PyHistoricalPowerDemand \<lparr>demands = []\<rparr>) \<and>
        merged DATA_ATTR_HISTORICAL_CONSUMPTION = Some PyNone \<and>
        merged DATA_ATTR_HISTORICAL_GENERATION = Some PyNone) \<and>
   HISTORICAL_POWER_DEMAND \<in> set (requested (required_datasets (sensors sensed_coordinator))) \<and>
   \<not> fetch_returns sample_env (api sensed_coordinator) HISTORICAL_POWER_DEMAND \<and>
   HISTORICAL_CONSUMPTION \<notin> set (requested (required_datasets (sensors sensed_coordinator))) \<and>
   data (update_internal_data sensed_coordinator [DATA_ATTR_MEASURE_INSTANT \<mapsto> PyFloat 7])
     DATA_ATTR_MEASURE_ACCUMULATED = Some (PyInt 41)"
  using merge_is_right_biased
    [of sensed_coordinator "[DATA_ATTR_MEASURE_INSTANT \<mapsto> PyFloat 7]" sample_env]
  by (simp add: sensed_coordinator_def register_sensor_def update_internal_data_def
      fetch_returns_def tick_defs sample_defs)

section \<open>The historical generation\<close>

lemma fetch_returns_generation: "\<not> fetch_returns env a HISTORICAL_GENERATION"
  by (simp add: fetch_returns_def get_historical_generation_data_def Let_def
      split: sum.splits)

text \<open>
  C10.  The routine of the historical generation always sends the request
  \<^verbatim>\<open>get_historical_generation(start, end)\<close> for the window that ends today and spans
  \<^verbatim>\<open>HISTORICAL_PERIOD_LENGHT\<close>; it raises \<^verbatim>\<open>NotImplementedError\<close> once the request has
  returned, and what the request raises otherwise.  So in every tick in which the barrier
  of the generation allows, the request is sent although no success can follow; the
  barrier allows in every tick that returns, requests the generation and finds its check
  passing.
\<close>

theorem generation_request_precedes_not_implemented:
  "fst (get_historical_generation_data env a) =
     [ApiCall (GetHistoricalGeneration (today env - HISTORICAL_PERIOD_LENGHT env) (today env))] \<and>
   (\<forall>rec. get_historical_generation a (today env - HISTORICAL_PERIOD_LENGHT env) (today env)
            = Inr rec \<longrightarrow>
          snd (get_historical_generation_data env a) = Inl NotImplementedError) \<and>
   (\<forall>e. get_historical_generation a (today env - HISTORICAL_PERIOD_LENGHT env) (today env)
            = Inl e \<longrightarrow>
          snd (get_historical_generation_data env a) = Inl e) \<and>
   (\<forall>slf' evs r.
      async_update_data_raw env slf datasets now = (slf', evs, r) \<and>
      Log (UpdateAllowed HISTORICAL_GENERATION) \<in> set evs \<longrightarrow>
        Fetch HISTORICAL_GENERATION \<in> set evs \<and>
        ApiCall (GetHistoricalGeneration (today env - HISTORICAL_PERIOD_LENGHT env) (today env))
          \<in> set evs \<and>
        BarrierSuccess HISTORICAL_GENERATION \<notin> set evs) \<and>
   (\<forall>slf' evs m.
      async_update_data_raw env slf datasets now = (slf', evs, Inr m) \<and>
      HISTORICAL_GENERATION \<in> set (requested datasets) \<and>
      check_returns env slf HISTORICAL_GENERATION \<longrightarrow>
        Log (UpdateAllowed HISTORICAL_GENERATION) \<in> set evs)"
proof -
  let ?req = "ApiCall (GetHistoricalGeneration (today env - HISTORICAL_PERIOD_LENGHT env) (today env))"
  have A: "fst (get_historical_generation_data env a) = [?req]" for a
    by (simp add: get_historical_generation_data_def Let_def)
  have B: "snd (get_historical_generation_data env a) = Inl NotImplementedError"
    if "get_historical_generation a (today env - HISTORICAL_PERIOD_LENGHT env) (today env)
            = Inr rec" for rec
    using that by (simp add: get_historical_generation_data_def Let_def)
  have C: "snd (get_historical_generation_data env a) = Inl e"
    if "get_historical_generation a (today env - HISTORICAL_PERIOD_LENGHT env) (today env)
            = Inl e" for e
    using that by (simp add: get_historical_generation_data_def Let_def)
  have D: "Fetch HISTORICAL_GENERATION \<in> set evs \<and> ?req \<in> set evs \<and>
        BarrierSuccess HISTORICAL_GENERATION \<notin> set evs"
    if t: "async_update_data_raw env slf datasets now = (slf', evs, r)"
      and al: "Log (UpdateAllowed HISTORICAL_GENERATION) \<in> set evs" for slf' evs r
  proof -
    from tick_events_of(1,2) [OF t al, of HISTORICAL_GENERATION]
    have in_step: "Log (UpdateAllowed HISTORICAL_GENERATION)
                     \<in> set (step_events env slf HISTORICAL_GENERATION)"
      and sub: "set (step_events env slf HISTORICAL_GENERATION) \<subseteq> set evs" by simp_all
    from in_step have cr: "check_returns env slf HISTORICAL_GENERATION"
      by (simp add: step_events_allowed)
    obtain fevs res where d: "dispatch env (api slf) HISTORICAL_GENERATION = Some (fevs, res)"
      by (cases "get_historical_generation_data env (api slf)") simp
    with A [of "api slf"] have "fevs = [?req]" by simp
    with step_events_fetch [OF cr d] sub have "Fetch HISTORICAL_GENERATION \<in> set evs"
      "?req \<in> set evs" by auto
    moreover have "BarrierSuccess HISTORICAL_GENERATION \<notin> set evs"
      using tick_summary(5) [OF t, of HISTORICAL_GENERATION]
      by (simp add: fetch_returns_generation)
    ultimately show ?thesis by simp
  qed
  have E: "Log (UpdateAllowed HISTORICAL_GENERATION) \<in> set evs"
    if "async_update_data_raw env slf datasets now = (slf', evs, Inr m)"
      "HISTORICAL_GENERATION \<in> set (requested datasets)"
      "check_returns env slf HISTORICAL_GENERATION" for slf' evs m
    using tick_events_complete [OF that(1,2)] that(3)
      step_events_allowed [of HISTORICAL_GENERATION env slf] by auto
  from A [of a] B C D E show ?thesis by blast
qed

text \<open>A tick that requests the generation only.\<close>

theorem generation_request_precedes_not_implemented_witness:
  "async_update_data_raw sample_env sample_coordinator 4 None =
     (sample_coordinator,
      [BarrierCheck HISTORICAL_GENERATION, Log (UpdateAllowed HISTORICAL_GENERATION),
       Fetch HISTORICAL_GENERATION, ApiCall (GetHistoricalGeneration 993 1000),
       Log (UpdateErrorFixme HISTORICAL_GENERATION NotImplementedError)],
      Inr Map.empty) \<and>
   HISTORICAL_GENERATION \<in> set (requested 4) \<and>
   check_returns sample_env sample_coordinator HISTORICAL_GENERATION \<and>
   get_historical_generation_data sample_env sample_api =
     ([ApiCall (GetHistoricalGeneration 993 1000)], Inl NotImplementedError) \<and>
   get_historical_generation_data sample_env refusing_api =
     ([ApiCall (GetHistoricalGeneration 993 1000)],
      Inl (RequestFailedError ''Service Unavailable'' 503))"
proof -
  have t: "async_update_data_raw sample_env sample_coordinator 4 None =
     (sample_coordinator,
      [BarrierCheck HISTORICAL_GENERATION, Log (UpdateAllowed HISTORICAL_GENERATION),
       Fetch HISTORICAL_GENERATION, ApiCall (GetHistoricalGeneration 993 1000),
       Log (UpdateErrorFixme HISTORICAL_GENERATION NotImplementedError)],
      Inr Map.empty)"
    by (simp add: tick_defs sample_defs)
  from generation_request_precedes_not_implemented
         [of sample_env sample_api sample_coordinator 4 None]
       generation_request_precedes_not_implemented
         [of sample_env refusing_api sample_coordinator 4 None] t
  show ?thesis
    by (simp add: requested_iff check_returns_def sample_defs refusing_api_def
        get_historical_generation_data_def)
qed

section \<open>Exceptions of a fetch\<close>


lemma fetch_raises_not_returns: "fetch_raises env a d e \<Longrightarrow> \<not> fetch_returns env a d"
  by (auto simp: fetch_raises_def fetch_returns_def split: option.splits sum.splits)

text \<open>
  C1, as stated, fails: the last clause of the second \<^verbatim>\<open>try\<close> is \<^verbatim>\<open>except Exception\<close>, and an
  exception that is not an instance of \<^verbatim>\<open>Exception\<close> passes it.  Here the request for the
  measure is cancelled (\<^verbatim>\<open>asyncio.CancelledError\<close> derives from \<^verbatim>\<open>BaseException\<close> only): the
  exception leaves the tick, and the three data sets after the measure are not processed.
\<close>

theorem fetch_exception_propagates_counterexample:
  "MEASURE \<in> set (requested 15) \<and>
   check_returns sample_env (sample_coordinator\<lparr>api := cancelled_api\<rparr>) MEASURE \<and>
   fetch_raises sample_env cancelled_api MEASURE (OtherBaseException ''asyncio.CancelledError'') \<and>
   async_update_data_raw sample_env (sample_coordinator\<lparr>api := cancelled_api\<rparr>) 15 None =
     (sample_coordinator\<lparr>api := cancelled_api\<rparr>,
      [BarrierCheck MEASURE, Log (UpdateAllowed MEASURE), Fetch MEASURE, ApiCall GetMeasure],
      Inl (OtherBaseException ''asyncio.CancelledError''))"
  by (simp add: tick_defs sample_defs cancelled_api_def check_returns_def fetch_raises_def)

text \<open>
  C1, amended.  An exception raised by the fetch of a data set that is an instance of
  \<^verbatim>\<open>Exception\<close> (a decoding error, a failed request, a command error or any other) is
  caught in the tick: the loop goes on with the remaining data sets from a state in which
  only the calls of this data set and the logged error were added, the barriers and the
  accumulated result being as before, so the exception does not leave the tick and the
  data set adds no key; an exception that is not an instance of \<^verbatim>\<open>Exception\<close> ends the
  loop there and propagates.  In a tick that returns, a data set whose fetch raises has
  none of its keys in the result and no success recorded.  A tick whose timestamp is UTC
  and in which every exception raised is caught by a clause of the loop returns its
  result.
\<close>

theorem fetch_Exception_is_absorbed:
  "(\<forall>b fevs e.
      barriers (self s) d = Some b \<and> check env b = None \<and>
      dispatch env (api (self s)) d = Some (fevs, Inl e) \<longrightarrow>
        (if is_Exception e
         then \<exists>msg. fetch_handler d e = Some msg \<and>
                update_loop env (d # rest) s =
                  update_loop env rest
                    (emit ([BarrierCheck d, Log (UpdateAllowed d), Fetch d] @ fevs @ [Log msg]) s)
         else update_loop env (d # rest) s =
                (emit ([BarrierCheck d, Log (UpdateAllowed d), Fetch d] @ fevs) s, Some e))) \<and>
   (\<forall>slf' evs m e.
      async_update_data_raw env slf datasets now = (slf', evs, Inr m) \<and>
      fetch_raises env (api slf) d e \<longrightarrow>
        dom m \<inter> fragment_keys d = {} \<and> BarrierSuccess d \<notin> set evs) \<and>
   (now_is_utc now \<and> (\<forall>d'\<in>set (requested datasets). absorbed env slf d') \<longrightarrow>
      (\<exists>m. snd (snd (async_update_data_raw env slf datasets now)) = Inr m))"
proof -
  have A: "if is_Exception e
         then \<exists>msg. fetch_handler d e = Some msg \<and>
                update_loop env (d # rest) s =
                  update_loop env rest
                    (emit ([BarrierCheck d, Log (UpdateAllowed d), Fetch d] @ fevs @ [Log msg]) s)
         else update_loop env (d # rest) s =
                (emit ([BarrierCheck d, Log (UpdateAllowed d), Fetch d] @ fevs) s, Some e)"
    if h: "barriers (self s) d = Some b" "check env b = None"
      "dispatch env (api (self s)) d = Some (fevs, Inl e)" for b fevs e
  proof (cases "is_Exception e")
    case True
    then obtain msg where msg: "fetch_handler d e = Some msg"
      using fetch_handler_iff [of d e] by auto
    with h have "process_dataset env d s =
        (emit ([BarrierCheck d, Log (UpdateAllowed d), Fetch d] @ fevs @ [Log msg]) s, None)"
      by (simp add: process_dataset_def emit_def)
    with True msg show ?thesis by simp
  next
    case False
    then have "fetch_handler d e = None"
      using fetch_handler_iff [of d e] by auto
    with h have "process_dataset env d s =
        (emit ([BarrierCheck d, Log (UpdateAllowed d), Fetch d] @ fevs) s, Some e)"
      by (simp add: process_dataset_def emit_def)
    with False show ?thesis by simp
  qed
  have B: "dom m \<inter> fragment_keys d = {} \<and> BarrierSuccess d \<notin> set evs"
    if t: "async_update_data_raw env slf datasets now = (slf', evs, Inr m)"
      and f: "fetch_raises env (api slf) d e" for slf' evs m e
  proof -
    from tick_summary(5) [OF t, of d] fetch_raises_not_returns [OF f]
    have "BarrierSuccess d \<notin> set evs" by simp
    with tick_no_keys [OF t] show ?thesis by simp
  qed
  have C: "\<exists>m. snd (snd (async_update_data_raw env slf datasets now)) = Inr m"
    if "now_is_utc now" "\<forall>d'\<in>set (requested datasets). absorbed env slf d'"
    using that by (rule tick_completes)
  from A B C show ?thesis by blast
qed


text \<open>
  The request for the power demand fails in the sample installation; the loop goes on
  with the measure, and the tick returns the measure alone.
\<close>

theorem fetch_Exception_is_absorbed_witness:
  "barriers sample_coordinator HISTORICAL_POWER_DEMAND = Some True \<and>
   check sample_env True = None \<and>
   dispatch sample_env sample_api HISTORICAL_POWER_DEMAND =
     Some ([ApiCall GetHistoricalPowerDemand],
           Inl (RequestFailedError ''Too Many Requests'' 429)) \<and>
   is_Exception (RequestFailedError ''Too Many Requests'' 429) \<and>
   update_loop sample_env [HISTORICAL_POWER_DEMAND, MEASURE]
       \<lparr>self = sample_coordinator, local_data = Map.empty, events = []\<rparr> =
     update_loop sample_env [MEASURE]
       \<lparr>self = sample_coordinator, local_data = Map.empty,
        events = [BarrierCheck HISTORICAL_POWER_DEMAND, Log (UpdateAllowed HISTORICAL_POWER_DEMAND),
                  Fetch HISTORICAL_POWER_DEMAND, ApiCall GetHistoricalPowerDemand,
                  Log (UpdateErrorRequestFailed HISTORICAL_POWER_DEMAND
                         ''Too Many Requests'' 429)]\<rparr> \<and>
   fetch_raises sample_env sample_api HISTORICAL_POWER_DEMAND
     (RequestFailedError ''Too Many Requests'' 429) \<and>
   now_is_utc None \<and>
   absorbed sample_env sample_coordinator MEASURE \<and>
   absorbed sample_env sample_coordinator HISTORICAL_CONSUMPTION \<and>
   absorbed sample_env sample_coordinator HISTORICAL_GENERATION \<and>
   absorbed sample_env sample_coordinator HISTORICAL_POWER_DEMAND \<and>
   snd (snd (async_update_data_raw sample_env sample_coordinator 15 None)) =
     Inr [DATA_ATTR_MEASURE_ACCUMULATED \<mapsto> PyInt 42, DATA_ATTR_MEASURE_INSTANT \<mapsto> PyFloat 5]"
  using fetch_Exception_is_absorbed
    [of "\<lparr>self = sample_coordinator, local_data = Map.empty, events = []\<rparr>"
        HISTORICAL_POWER_DEMAND sample_env "[MEASURE]" sample_coordinator 15 None]
  by (simp add: tick_defs sample_defs fetch_raises_def now_is_utc_def absorbed_def)

section \<open>The historical generation never succeeds\<close>




end
